theory Spec2Isabelle
  imports Main "HOL-Library.Word"
begin

unbundle bit_operations_syntax

section \<open>JavaScript values used by the challenge services\<close>

text \<open>
  The two services modelled here are \<^verbatim>\<open>ChallengeService\<close>
  (\<^verbatim>\<open>challenge.service.ts\<close>) and \<^verbatim>\<open>NuwChallengeService\<close>
  (\<^verbatim>\<open>nuw-challenge.service.ts\<close>).

  A \<^verbatim>\<open>Uint8Array\<close> is a list of 8-bit words. A JavaScript number that holds an
  integer is an \<open>int\<close> (loop counters and lengths, never negative, are \<open>nat\<close>); the
  doubles of the source are exact on integers below \<open>2 ^ 53\<close>, which is the range this
  model is about. A JavaScript string is a \<open>string\<close>, one \<open>char\<close> per code unit
  (code units above 255 do not occur in hexadecimal text).
\<close>

type_synonym byte = "8 word"
type_synonym bytes = "byte list"

text \<open>\<^verbatim>\<open>ToInt32\<close>: the operands of \<^verbatim>\<open><<\<close>, \<^verbatim>\<open>>>\<close> and \<^verbatim>\<open>&\<close> are wrapped to 32 signed bits.\<close>

definition toInt32 :: "int \<Rightarrow> int" where
  "toInt32 x = signed_take_bit 31 x"

text \<open>\<^verbatim>\<open>a << n\<close> and \<^verbatim>\<open>a >> n\<close>: only the low five bits of the shift count are used.\<close>

definition js_shl :: "int \<Rightarrow> int \<Rightarrow> int" where
  "js_shl a n = toInt32 (push_bit (nat (n mod 32)) (toInt32 a))"

definition js_sar :: "int \<Rightarrow> int \<Rightarrow> int" where
  "js_sar a n = drop_bit (nat (n mod 32)) (toInt32 a)"

definition js_and :: "int \<Rightarrow> int \<Rightarrow> int" where
  "js_and a b = toInt32 a AND toInt32 b"

text \<open>\<^verbatim>\<open>a % b\<close>: the remainder takes the sign of the dividend.\<close>

definition js_rem :: "int \<Rightarrow> int \<Rightarrow> int" where
  "js_rem a b = sgn a * (\<bar>a\<bar> mod \<bar>b\<bar>)"

text \<open>\<^verbatim>\<open>arr[i]\<close> on a typed array: \<^verbatim>\<open>undefined\<close> (here \<open>None\<close>) out of range.\<close>

definition js_index :: "bytes \<Rightarrow> nat \<Rightarrow> byte option" where
  "js_index arr i = (if i < length arr then Some (arr ! i) else None)"

section \<open>Codec: hexToBytes and bytesToHex\<close>

definition isWhiteSpace :: "char \<Rightarrow> bool" where
  "isWhiteSpace c = (of_char c \<in> {9, 10, 11, 12, 13, 32, 160 :: nat})"

definition hexDigitValue :: "char \<Rightarrow> int option" where
  "hexDigitValue c =
     (let n = (of_char c :: nat) in
      if 48 \<le> n \<and> n \<le> 57 then Some (int n - 48)
      else if 97 \<le> n \<and> n \<le> 102 then Some (int n - 87)
      else if 65 \<le> n \<and> n \<le> 70 then Some (int n - 55)
      else None)"

text \<open>The digits of \<^verbatim>\<open>parseInt\<close>: the longest prefix of hexadecimal digits, read
  most significant first; \<open>None\<close> when there is no digit.\<close>

fun parseDigits :: "int option \<Rightarrow> string \<Rightarrow> int option" where
  "parseDigits acc [] = acc"
| "parseDigits acc (c # cs) =
     (case hexDigitValue c of
        None \<Rightarrow> acc
      | Some d \<Rightarrow> parseDigits (Some (16 * (case acc of None \<Rightarrow> 0 | Some a \<Rightarrow> a) + d)) cs)"

definition stripPrefix0x :: "string \<Rightarrow> string" where
  "stripPrefix0x s =
     (case s of
        c # d # rest \<Rightarrow> if c = CHR ''0'' \<and> (d = CHR ''x'' \<or> d = CHR ''X'') then rest else s
      | _ \<Rightarrow> s)"

text \<open>\<^verbatim>\<open>parseInt(s, 16)\<close>: leading white space is skipped, then an optional sign, then an
  optional \<^verbatim>\<open>0x\<close>, then the digits. \<open>None\<close> is \<^verbatim>\<open>NaN\<close>.\<close>

definition parseInt16 :: "string \<Rightarrow> int option" where
  "parseInt16 s =
     (let t = dropWhile isWhiteSpace s;
          neg = (case t of c # _ \<Rightarrow> c = CHR ''-'' | [] \<Rightarrow> False);
          u = (case t of c # r \<Rightarrow> if c = CHR ''+'' \<or> c = CHR ''-'' then r else t | [] \<Rightarrow> t)
      in case parseDigits None (stripPrefix0x u) of
           None \<Rightarrow> None
         | Some v \<Rightarrow> Some (if neg then - v else v))"

text \<open>Storing a number into a \<^verbatim>\<open>Uint8Array\<close>: \<^verbatim>\<open>NaN\<close> becomes 0, an integer is
  taken modulo 256.\<close>

definition toUint8 :: "int option \<Rightarrow> byte" where
  "toUint8 v = (case v of None \<Rightarrow> 0 | Some n \<Rightarrow> word_of_int n)"

text \<open>
  \<^verbatim>\<open>hexToBytes\<close> (identical in both services). \<^verbatim>\<open>new Uint8Array(hex.length / 2)\<close>
  truncates a fractional length, so an odd last character is dropped;
  \<^verbatim>\<open>hex.substr(i * 2, 2)\<close> is the two characters at \<open>2 * i\<close>.
\<close>

definition hexToBytes :: "string \<Rightarrow> bytes" where
  "hexToBytes hex =
     map (\<lambda>i. toUint8 (parseInt16 (take 2 (drop (i * 2) hex)))) [0..<length hex div 2]"

definition hexChar :: "nat \<Rightarrow> char" where
  "hexChar d = (if d < 10 then char_of (48 + d) else char_of (87 + d))"

text \<open>\<^verbatim>\<open>b.toString(16).padStart(2, '0')\<close> for a byte.\<close>

definition byteToHex :: "byte \<Rightarrow> string" where
  "byteToHex b = [hexChar (unat b div 16), hexChar (unat b mod 16)]"

definition bytesToHex :: "bytes \<Rightarrow> string" where
  "bytesToHex bs = concat (map byteToHex bs)"

text \<open>\<^verbatim>\<open>new DataView(buf).setBigUint64(0, BigInt(counter), false)\<close> on a fresh
  8-byte array: the counter modulo \<open>2 ^ 64\<close>, most significant byte first.\<close>

definition counterBytesOf :: "nat \<Rightarrow> bytes" where
  "counterBytesOf counter =
     map (\<lambda>k. word_of_nat ((counter mod 2 ^ 64) div 256 ^ (7 - k))) [0..<8]"

text \<open>The number that a byte string denotes when read most significant byte first.\<close>

definition beValue :: "bytes \<Rightarrow> nat" where
  "beValue bs = foldl (\<lambda>acc b. acc * 256 + unat b) 0 bs"

section \<open>The leading-zero-bit test\<close>

text \<open>The \<^verbatim>\<open>for\<close> loop of \<^verbatim>\<open>hasLeadingZeros\<close>: \<open>False\<close> when the loop returns
  false, \<open>True\<close> when it runs to its end. An index past the end reads
  \<^verbatim>\<open>undefined\<close>, which is \<^verbatim>\<open>!== 0\<close>.\<close>

function zeroBytesLoop :: "bytes \<Rightarrow> int \<Rightarrow> nat \<Rightarrow> bool" where
  "zeroBytesLoop hash fullBytes i =
     (if int i < fullBytes then
        (if js_index hash i \<noteq> Some 0 then False
         else zeroBytesLoop hash fullBytes (Suc i))
      else True)"
  by pat_completeness auto
termination
  by (relation "measure (\<lambda>(hash, fullBytes, i). nat (fullBytes - int i))") auto

declare zeroBytesLoop.simps [simp del]

text \<open>\<^verbatim>\<open>hasLeadingZeros\<close>, the same text in \<^verbatim>\<open>ChallengeService\<close> and in
  \<^verbatim>\<open>NuwChallengeService\<close>.\<close>

definition hasLeadingZeros :: "bytes \<Rightarrow> int \<Rightarrow> bool" where
  "hasLeadingZeros hash requiredBits =
     (let fullBytes = requiredBits div 8;
          remainingBits = js_rem requiredBits 8
      in if \<not> zeroBytesLoop hash fullBytes 0 then False
         else if remainingBits > 0 \<and> fullBytes < int (length hash) then
           (let mask = js_shl 255 (8 - remainingBits)
            in if js_and (uint (hash ! nat fullBytes)) mask \<noteq> 0 then False else True)
         else True)"

text \<open>The test as the specification words it: the digest starts with
  \<open>requiredBits div 8\<close> zero bytes, and when there is a remainder and the next byte
  exists, the top \<open>requiredBits mod 8\<close> bits of that byte are zero.\<close>

definition hasRequiredZeroBits_spec :: "bytes \<Rightarrow> nat \<Rightarrow> bool" where
  "hasRequiredZeroBits_spec digest requiredBits =
     (let fullBytes = requiredBits div 8;
          remainderBits = requiredBits mod 8
      in take fullBytes digest = replicate fullBytes 0 \<and>
         (remainderBits > 0 \<and> fullBytes < length digest \<longrightarrow>
            (\<forall>j \<in> {8 - remainderBits..<8}. \<not> bit (digest ! fullBytes) j)))"

section \<open>Errors, platform primitives and the calls made to them\<close>

text \<open>The \<^verbatim>\<open>code\<close> of a \<^verbatim>\<open>ChallengeError\<close> or \<^verbatim>\<open>NuwChallengeError\<close> is a string
  literal; the datatype lists the literals of both classes. \<^verbatim>\<open>ChallengeError\<close> is
  declared with the first five, \<^verbatim>\<open>NuwChallengeError\<close> with all but
  \<^verbatim>\<open>WASM_FAILED\<close>.\<close>

datatype error_code =
  FETCH_FAILED | SOLVE_FAILED | EXPIRED | INVALID | WASM_FAILED | WASM_UNAVAILABLE
  | UNSUPPORTED_TYPE

text \<open>What a solver can throw: one of the two error classes, the \<^verbatim>\<open>RangeError\<close> of
  \<^verbatim>\<open>TypedArray.prototype.set\<close>, or the rejection of \<^verbatim>\<open>crypto.subtle.digest\<close>,
  which \<^verbatim>\<open>verifyMerkleProof\<close> does not catch.\<close>

datatype exn =
  ChallengeError error_code | NuwChallengeError error_code | RangeError | DigestRejected

text \<open>The options object passed to \<^verbatim>\<open>argon2id\<close> of hash-wasm; \<^verbatim>\<open>outputType\<close> is
  always \<^verbatim>\<open>'hex'\<close>.\<close>

record argon2_options =
  password :: bytes
  salt :: bytes
  memorySize :: int
  iterations :: int
  parallelism :: int
  hashLength :: int

text \<open>
  The primitives are not code of this repository; they are parameters of the model.
  \<open>None\<close> is a thrown error or a rejected promise. \<open>'k\<close> is the type of a
  \<^verbatim>\<open>CryptoKey\<close>.
  \<^item> \<open>argon2id\<close>: \<^verbatim>\<open>argon2id\<close> of hash-wasm, returning the digest in hexadecimal;
  \<^item> \<open>importKey\<close>: \<^verbatim>\<open>crypto.subtle.importKey('raw', keyData, {name: 'Ed25519'}, false, ['verify'])\<close>;
  \<^item> \<open>verify\<close>: \<^verbatim>\<open>crypto.subtle.verify('Ed25519', key, sigData, msgData)\<close>;
  \<^item> \<open>digest\<close>: \<^verbatim>\<open>crypto.subtle.digest('SHA-256', data)\<close>.
\<close>

record 'k primitives =
  argon2id :: "argon2_options \<Rightarrow> string option"
  importKey :: "bytes \<Rightarrow> 'k option"
  verify :: "'k \<Rightarrow> bytes \<Rightarrow> bytes \<Rightarrow> bool option"
  digest :: "bytes \<Rightarrow> bytes option"

text \<open>Every call of a primitive is logged with its arguments, in order, so that
  ``before any hashing is attempted'' is a statement about the log. A solver returns
  the log and either the exception thrown or its result. The zero-delay
  \<^verbatim>\<open>yieldToUI\<close> has no effect on either and is left out.\<close>

datatype call =
  Argon2idCall argon2_options
  | ImportKeyCall bytes
  | VerifyCall bytes bytes
  | DigestCall bytes

type_synonym 'a run = "call list \<times> (exn + 'a)"

section \<open>ChallengeService\<close>

record TransactionChallenge =
  challenge_id :: string
  nonce :: string
  difficulty :: int
  memory_cost :: int
  time_cost :: int
  expires_at :: int
  instructions :: string

record SolvedChallenge =
  solved_challenge_id :: string
  solution :: string
  hash :: string

definition DEFAULT_PARALLELISM :: int where
  "DEFAULT_PARALLELISM = 1"

definition DEFAULT_HASH_LENGTH :: int where
  "DEFAULT_HASH_LENGTH = 32"

definition powOptions :: "TransactionChallenge \<Rightarrow> bytes \<Rightarrow> nat \<Rightarrow> argon2_options" where
  "powOptions challenge saltBytes counter =
     \<lparr>password = counterBytesOf counter, salt = saltBytes,
      memorySize = memory_cost challenge, iterations = time_cost challenge,
      parallelism = DEFAULT_PARALLELISM, hashLength = DEFAULT_HASH_LENGTH\<rparr>"

text \<open>The \<^verbatim>\<open>for\<close> loop of \<^verbatim>\<open>ChallengeService.solveChallenge\<close>. Inside its
  \<^verbatim>\<open>try\<close> only \<^verbatim>\<open>argon2id\<close> can throw; the \<^verbatim>\<open>catch\<close> rethrows as
  \<^verbatim>\<open>WASM_FAILED\<close>.\<close>

function solveLoop ::
  "(argon2_options \<Rightarrow> string option) \<Rightarrow> TransactionChallenge \<Rightarrow> bytes \<Rightarrow> nat \<Rightarrow> nat
     \<Rightarrow> SolvedChallenge run" where
  "solveLoop a2 challenge saltBytes maxAttempts counter =
     (if counter < maxAttempts then
        (case a2 (powOptions challenge saltBytes counter) of
           None \<Rightarrow>
             ([Argon2idCall (powOptions challenge saltBytes counter)],
              Inl (ChallengeError WASM_FAILED))
         | Some hashHex \<Rightarrow>
             if hasLeadingZeros (hexToBytes hashHex) (difficulty challenge) then
               ([Argon2idCall (powOptions challenge saltBytes counter)],
                Inr \<lparr>solved_challenge_id = challenge_id challenge,
                     solution = bytesToHex (counterBytesOf counter),
                     hash = hashHex\<rparr>)
             else
               (case solveLoop a2 challenge saltBytes maxAttempts (Suc counter) of
                  (calls, r) \<Rightarrow>
                    (Argon2idCall (powOptions challenge saltBytes counter) # calls, r)))
      else ([], Inl (ChallengeError SOLVE_FAILED)))"
  by pat_completeness auto
termination
  by (relation "measure (\<lambda>(a2, challenge, saltBytes, maxAttempts, counter). maxAttempts - counter)")
    auto

declare solveLoop.simps [simp del]

text \<open>\<^verbatim>\<open>ChallengeService.solveChallenge(challenge, maxAttempts = 10_000)\<close>; \<open>now\<close> is
  \<^verbatim>\<open>Math.floor(Date.now() / 1000)\<close>.\<close>

definition solveChallenge ::
  "(argon2_options \<Rightarrow> string option) \<Rightarrow> int \<Rightarrow> TransactionChallenge \<Rightarrow> nat
     \<Rightarrow> SolvedChallenge run" where
  "solveChallenge a2 now challenge maxAttempts =
     (if expires_at challenge < now then ([], Inl (ChallengeError EXPIRED))
      else if length (hexToBytes (nonce challenge)) \<noteq> 32 then
        ([], Inl (ChallengeError INVALID))
      else solveLoop a2 challenge (hexToBytes (nonce challenge)) maxAttempts 0)"

definition defaultMaxAttempts :: nat where
  "defaultMaxAttempts = 10000"

section \<open>NuwChallengeService\<close>

text \<open>The enum \<^verbatim>\<open>NuwChallengeType\<close>; \<open>OTHER_TYPE\<close> is any other string the server
  may send, which reaches the \<^verbatim>\<open>default\<close> branch of the dispatcher.\<close>

datatype NuwChallengeType =
  ARGON2_POW | SIGNATURE_BATCH | ZK_VERIFY | PQ_ASSIST | MERKLE_VERIFY | OTHER_TYPE string

record PendingSignature =
  tx_id :: string
  message :: string
  signature :: string
  public_key :: string
  algorithm :: string

record ZkProofTask =
  proof_id :: string
  proof_type :: string
  zk_proof_hex :: string
  public_inputs :: "string list"
  verification_key :: string

record MerkleProofTask =
  merkle_root :: string
  merkle_leaf :: string
  merkle_path :: "string list"
  merkle_index :: int

record Argon2Params =
  params_nonce :: string
  params_difficulty :: int
  params_memory_cost :: int
  params_time_cost :: int

text \<open>An optional field of \<^verbatim>\<open>NuwChallenge\<close> is \<open>None\<close> when absent (or
  \<^verbatim>\<open>null\<close>).\<close>

record NuwChallenge =
  nuw_challenge_id :: string
  challenge_type :: NuwChallengeType
  fee_discount_percent :: int
  nuw_expires_at :: int
  argon2_params :: "Argon2Params option"
  signature_batch :: "PendingSignature list option"
  zk_proof :: "ZkProofTask option"
  merkle_proofs :: "MerkleProofTask list option"

record SignatureResult =
  result_tx_id :: string
  signature_valid :: bool

record ZkResult =
  result_proof_id :: string
  zk_valid :: bool

record MerkleResult =
  result_index :: int
  merkle_valid :: bool

record NuwSolution =
  solution_challenge_id :: string
  solution_challenge_type :: NuwChallengeType
  argon2_solution :: "string option"
  signature_results :: "SignatureResult list option"
  zk_result :: "ZkResult option"
  merkle_results :: "MerkleResult list option"

subsection \<open>solveArgon2\<close>

definition nuwOptions :: "Argon2Params \<Rightarrow> nat \<Rightarrow> argon2_options" where
  "nuwOptions params counter =
     \<lparr>password = counterBytesOf counter, salt = hexToBytes (params_nonce params),
      memorySize = params_memory_cost params, iterations = params_time_cost params,
      parallelism = 1, hashLength = 32\<rparr>"

text \<open>The \<^verbatim>\<open>for\<close> loop of \<^verbatim>\<open>solveArgon2\<close>; its \<^verbatim>\<open>catch\<close> rethrows as
  \<^verbatim>\<open>SOLVE_FAILED\<close>.\<close>

function argon2Loop ::
  "(argon2_options \<Rightarrow> string option) \<Rightarrow> NuwChallenge \<Rightarrow> Argon2Params \<Rightarrow> nat \<Rightarrow> nat
     \<Rightarrow> NuwSolution run" where
  "argon2Loop a2 challenge params maxAttempts counter =
     (if counter < maxAttempts then
        (case a2 (nuwOptions params counter) of
           None \<Rightarrow>
             ([Argon2idCall (nuwOptions params counter)], Inl (NuwChallengeError SOLVE_FAILED))
         | Some hashHex \<Rightarrow>
             if hasLeadingZeros (hexToBytes hashHex) (params_difficulty params) then
               ([Argon2idCall (nuwOptions params counter)],
                Inr \<lparr>solution_challenge_id = nuw_challenge_id challenge,
                     solution_challenge_type = ARGON2_POW,
                     argon2_solution = Some (bytesToHex (counterBytesOf counter)),
                     signature_results = None, zk_result = None, merkle_results = None\<rparr>)
             else
               (case argon2Loop a2 challenge params maxAttempts (Suc counter) of
                  (calls, r) \<Rightarrow> (Argon2idCall (nuwOptions params counter) # calls, r)))
      else ([], Inl (NuwChallengeError SOLVE_FAILED)))"
  by pat_completeness auto
termination
  by (relation "measure (\<lambda>(a2, challenge, params, maxAttempts, counter). maxAttempts - counter)")
    auto

declare argon2Loop.simps [simp del]

definition solveArgon2 ::
  "(argon2_options \<Rightarrow> string option) \<Rightarrow> NuwChallenge \<Rightarrow> NuwSolution run" where
  "solveArgon2 a2 challenge =
     (case argon2_params challenge of
        None \<Rightarrow> ([], Inl (NuwChallengeError INVALID))
      | Some params \<Rightarrow> argon2Loop a2 challenge params 10000 0)"

subsection \<open>solveSignatureBatch\<close>

text \<open>\<^verbatim>\<open>verifySignature\<close> never throws: the inner \<^verbatim>\<open>catch\<close> turns a failure of
  \<^verbatim>\<open>importKey\<close> or \<^verbatim>\<open>verify\<close> into \<open>False\<close>, and every algorithm other than
  \<^verbatim>\<open>'ed25519'\<close> takes the \<^verbatim>\<open>else\<close> branch.\<close>

definition verifySignature ::
  "'k primitives \<Rightarrow> bytes \<Rightarrow> bytes \<Rightarrow> bytes \<Rightarrow> string \<Rightarrow> call list \<times> bool" where
  "verifySignature prims messageBytes signatureBytes publicKey alg =
     (if alg = ''ed25519'' then
        (case importKey prims publicKey of
           None \<Rightarrow> ([ImportKeyCall publicKey], False)
         | Some key \<Rightarrow>
             (case verify prims key signatureBytes messageBytes of
                None \<Rightarrow> ([ImportKeyCall publicKey, VerifyCall signatureBytes messageBytes], False)
              | Some ok \<Rightarrow>
                  ([ImportKeyCall publicKey, VerifyCall signatureBytes messageBytes], ok)))
      else ([], False))"

text \<open>The \<^verbatim>\<open>for ... of\<close> loop of \<^verbatim>\<open>solveSignatureBatch\<close>. Nothing in its
  \<^verbatim>\<open>try\<close> throws on string fields, so its \<^verbatim>\<open>catch\<close> (which would push
  \<^verbatim>\<open>valid: false\<close>) is not a branch here.\<close>

fun signatureLoop :: "'k primitives \<Rightarrow> PendingSignature list \<Rightarrow> call list \<times> SignatureResult list"
  where
  "signatureLoop prims [] = ([], [])"
| "signatureLoop prims (sig # rest) =
     (case verifySignature prims (hexToBytes (message sig)) (hexToBytes (signature sig))
             (hexToBytes (public_key sig)) (algorithm sig) of
        (calls, valid) \<Rightarrow>
          (case signatureLoop prims rest of
             (calls', results) \<Rightarrow>
               (calls @ calls', \<lparr>result_tx_id = tx_id sig, signature_valid = valid\<rparr> # results)))"

definition solveSignatureBatch :: "'k primitives \<Rightarrow> NuwChallenge \<Rightarrow> NuwSolution run" where
  "solveSignatureBatch prims challenge =
     (case signature_batch challenge of
        None \<Rightarrow> ([], Inl (NuwChallengeError INVALID))
      | Some sigs \<Rightarrow>
          if length sigs = 0 then ([], Inl (NuwChallengeError INVALID))
          else
            (case signatureLoop prims sigs of
               (calls, results) \<Rightarrow>
                 (calls,
                  Inr \<lparr>solution_challenge_id = nuw_challenge_id challenge,
                       solution_challenge_type = SIGNATURE_BATCH,
                       argon2_solution = None, signature_results = Some results,
                       zk_result = None, merkle_results = None\<rparr>)))"

subsection \<open>solveZkVerify\<close>

definition solveZkVerify :: "NuwChallenge \<Rightarrow> NuwSolution run" where
  "solveZkVerify challenge =
     (case zk_proof challenge of
        None \<Rightarrow> ([], Inl (NuwChallengeError INVALID))
      | Some task \<Rightarrow>
          ([],
           Inr \<lparr>solution_challenge_id = nuw_challenge_id challenge,
                solution_challenge_type = ZK_VERIFY,
                argon2_solution = None, signature_results = None,
                zk_result = Some \<lparr>result_proof_id = proof_id task, zk_valid = True\<rparr>,
                merkle_results = None\<rparr>))"

subsection \<open>solveMerkleVerify\<close>

text \<open>\<^verbatim>\<open>target.set(source, offset)\<close> on typed arrays: a \<^verbatim>\<open>RangeError\<close> (here
  \<open>None\<close>) when the source does not fit.\<close>

definition typedArraySet :: "bytes \<Rightarrow> bytes \<Rightarrow> nat \<Rightarrow> bytes option" where
  "typedArraySet target source offset =
     (if offset + length source > length target then None
      else Some (take offset target @ source @ drop (offset + length source) target))"

text \<open>\<^verbatim>\<open>const isRight = (index >> i) & 1\<close>, tested for truthiness.\<close>

definition isRight :: "int \<Rightarrow> nat \<Rightarrow> bool" where
  "isRight idx i = (js_and (js_sar idx (int i)) 1 \<noteq> 0)"

text \<open>\<^verbatim>\<open>combined\<close>: a fresh 64-byte array, filled by two \<^verbatim>\<open>set\<close> calls.\<close>

definition combine :: "bool \<Rightarrow> bytes \<Rightarrow> bytes \<Rightarrow> bytes option" where
  "combine right sibling current =
     (if right then
        (case typedArraySet (replicate 64 0) sibling 0 of
           None \<Rightarrow> None
         | Some c \<Rightarrow> typedArraySet c current 32)
      else
        (case typedArraySet (replicate 64 0) current 0 of
           None \<Rightarrow> None
         | Some c \<Rightarrow> typedArraySet c sibling 32))"

text \<open>The first loop of \<^verbatim>\<open>verifyMerkleProof\<close>, over \<^verbatim>\<open>proofHex[i], proofHex[i+1], ...\<close>.\<close>

fun merkleLoop :: "(bytes \<Rightarrow> bytes option) \<Rightarrow> int \<Rightarrow> string list \<Rightarrow> nat \<Rightarrow> bytes \<Rightarrow> bytes run"
  where
  "merkleLoop dg idx [] i current = ([], Inr current)"
| "merkleLoop dg idx (p # ps) i current =
     (case combine (isRight idx i) (hexToBytes p) current of
        None \<Rightarrow> ([], Inl RangeError)
      | Some combined \<Rightarrow>
          (case dg combined of
             None \<Rightarrow> ([DigestCall combined], Inl DigestRejected)
           | Some h \<Rightarrow>
               (case merkleLoop dg idx ps (Suc i) h of
                  (calls, r) \<Rightarrow> (DigestCall combined # calls, r))))"

text \<open>The comparison with the root: the lengths, then byte by byte.\<close>

definition compareWithRoot :: "bytes \<Rightarrow> bytes \<Rightarrow> bool" where
  "compareWithRoot current rootBytes =
     (if length current \<noteq> length rootBytes then False
      else list_all (\<lambda>i. current ! i = rootBytes ! i) [0..<length current])"

definition verifyMerkleProof ::
  "(bytes \<Rightarrow> bytes option) \<Rightarrow> string \<Rightarrow> string \<Rightarrow> string list \<Rightarrow> int \<Rightarrow> bool run" where
  "verifyMerkleProof dg rootHex leafHex proofHex idx =
     (case merkleLoop dg idx proofHex 0 (hexToBytes leafHex) of
        (calls, Inl e) \<Rightarrow> (calls, Inl e)
      | (calls, Inr current) \<Rightarrow> (calls, Inr (compareWithRoot current (hexToBytes rootHex))))"

text \<open>The loop of \<^verbatim>\<open>solveMerkleVerify\<close>; an exception of \<^verbatim>\<open>verifyMerkleProof\<close>
  is not caught.\<close>

fun merkleTasksLoop ::
  "(bytes \<Rightarrow> bytes option) \<Rightarrow> MerkleProofTask list \<Rightarrow> (MerkleResult list) run" where
  "merkleTasksLoop dg [] = ([], Inr [])"
| "merkleTasksLoop dg (task # rest) =
     (case verifyMerkleProof dg (merkle_root task) (merkle_leaf task) (merkle_path task)
             (merkle_index task) of
        (calls, Inl e) \<Rightarrow> (calls, Inl e)
      | (calls, Inr valid) \<Rightarrow>
          (case merkleTasksLoop dg rest of
             (calls', Inl e) \<Rightarrow> (calls @ calls', Inl e)
           | (calls', Inr results) \<Rightarrow>
               (calls @ calls',
                Inr (\<lparr>result_index = merkle_index task, merkle_valid = valid\<rparr> # results))))"

definition solveMerkleVerify ::
  "(bytes \<Rightarrow> bytes option) \<Rightarrow> NuwChallenge \<Rightarrow> NuwSolution run" where
  "solveMerkleVerify dg challenge =
     (case merkle_proofs challenge of
        None \<Rightarrow> ([], Inl (NuwChallengeError INVALID))
      | Some tasks \<Rightarrow>
          if length tasks = 0 then ([], Inl (NuwChallengeError INVALID))
          else
            (case merkleTasksLoop dg tasks of
               (calls, Inl e) \<Rightarrow> (calls, Inl e)
             | (calls, Inr results) \<Rightarrow>
                 (calls,
                  Inr \<lparr>solution_challenge_id = nuw_challenge_id challenge,
                       solution_challenge_type = MERKLE_VERIFY,
                       argon2_solution = None, signature_results = None,
                       zk_result = None, merkle_results = Some results\<rparr>)))"

subsection \<open>The dispatcher\<close>

text \<open>\<^verbatim>\<open>NuwChallengeService.solveChallenge\<close>; \<open>now\<close> is
  \<^verbatim>\<open>Math.floor(Date.now() / 1000)\<close>.\<close>

definition nuwSolveChallenge :: "'k primitives \<Rightarrow> int \<Rightarrow> NuwChallenge \<Rightarrow> NuwSolution run" where
  "nuwSolveChallenge prims now challenge =
     (if nuw_expires_at challenge < now then ([], Inl (NuwChallengeError EXPIRED))
      else
        (case challenge_type challenge of
           ARGON2_POW \<Rightarrow> solveArgon2 (argon2id prims) challenge
         | SIGNATURE_BATCH \<Rightarrow> solveSignatureBatch prims challenge
         | ZK_VERIFY \<Rightarrow> solveZkVerify challenge
         | MERKLE_VERIFY \<Rightarrow> solveMerkleVerify (digest prims) challenge
         | PQ_ASSIST \<Rightarrow> solveArgon2 (argon2id prims) challenge
         | OTHER_TYPE t \<Rightarrow> ([], Inl (NuwChallengeError UNSUPPORTED_TYPE))))"

subsection \<open>The Merkle rule as the specification words it\<close>

text \<open>Starting from the leaf, step \<open>i\<close> hashes \<open>sibling \<parallel> current\<close> when bit \<open>i\<close> of the
  index is 1 and \<open>current \<parallel> sibling\<close> otherwise; the proof verifies when the last digest
  is the root. \<open>H\<close> is the hash function.\<close>

fun merkleFold_spec :: "(bytes \<Rightarrow> bytes) \<Rightarrow> int \<Rightarrow> bytes list \<Rightarrow> nat \<Rightarrow> bytes \<Rightarrow> bytes" where
  "merkleFold_spec H idx [] i current = current"
| "merkleFold_spec H idx (sibling # rest) i current =
     merkleFold_spec H idx rest (Suc i)
       (if bit idx i then H (sibling @ current) else H (current @ sibling))"

definition merkleVerify_spec :: "(bytes \<Rightarrow> bytes) \<Rightarrow> bytes \<Rightarrow> bytes \<Rightarrow> bytes list \<Rightarrow> int \<Rightarrow> bool"
  where
  "merkleVerify_spec H rootBytes leafBytes siblings idx =
     (merkleFold_spec H idx siblings 0 leafBytes = rootBytes)"

section \<open>Example inputs\<close>

text \<open>Concrete challenges and stand-ins for the primitives, used to run the model.\<close>

definition zeroDigestHex :: string where
  "zeroDigestHex = ''0000000000000000000000000000000000000000000000000000000000000000''"

definition onesDigestHex :: string where
  "onesDigestHex = ''ffffffffffffffffffffffffffffffffffffffffffffffffffffffffffffffff''"

definition exampleChallenge :: TransactionChallenge where
  "exampleChallenge =
     \<lparr>challenge_id = ''c-1'', nonce = zeroDigestHex, difficulty = 8, memory_cost = 1024,
      time_cost = 2, expires_at = 2000, instructions = []\<rparr>"

text \<open>Stand-ins for Argon2id: one whose digest is all zero at counter 2 only, one whose
  digest never passes a test of 8 bits.\<close>

definition hitAtTwo :: "argon2_options \<Rightarrow> string option" where
  "hitAtTwo opts =
     (if password opts = [0, 0, 0, 0, 0, 0, 0, 2] then Some zeroDigestHex
      else Some onesDigestHex)"

definition alwaysMiss :: "argon2_options \<Rightarrow> string option" where
  "alwaysMiss opts = Some onesDigestHex"

definition exampleParams :: Argon2Params where
  "exampleParams =
     \<lparr>params_nonce = zeroDigestHex, params_difficulty = 8, params_memory_cost = 1024,
      params_time_cost = 2\<rparr>"

text \<open>A nonce of 32 hexadecimal characters, that is 16 bytes.\<close>

definition shortNonceParams :: Argon2Params where
  "shortNonceParams =
     \<lparr>params_nonce = ''00000000000000000000000000000000'', params_difficulty = 8,
      params_memory_cost = 1024, params_time_cost = 2\<rparr>"

text \<open>A \<^verbatim>\<open>NuwChallenge\<close> of the given type with no payload at all.\<close>

definition bareChallenge :: "NuwChallengeType \<Rightarrow> NuwChallenge" where
  "bareChallenge ty =
     \<lparr>nuw_challenge_id = ''n-1'', challenge_type = ty, fee_discount_percent = 0,
      nuw_expires_at = 2000, argon2_params = None, signature_batch = None, zk_proof = None,
      merkle_proofs = None\<rparr>"

text \<open>An environment where Argon2id returns the all-zero digest and WebCrypto is
  missing, and one where every primitive fails.\<close>

definition zeroDigestPrims :: "unit primitives" where
  "zeroDigestPrims =
     \<lparr>argon2id = (\<lambda>opts. Some zeroDigestHex), importKey = (\<lambda>keyData. None),
      verify = (\<lambda>key sigData msgData. None), digest = (\<lambda>combined. None)\<rparr>"

definition failingPrims :: "unit primitives" where
  "failingPrims =
     \<lparr>argon2id = (\<lambda>opts. None), importKey = (\<lambda>keyData. None),
      verify = (\<lambda>key sigData msgData. None), digest = (\<lambda>combined. None)\<rparr>"

definition failingArgon2 :: "argon2_options \<Rightarrow> string option" where
  "failingArgon2 opts = None"

definition exampleZkTask :: ZkProofTask where
  "exampleZkTask =
     \<lparr>proof_id = ''p-1'', proof_type = ''halo2'', zk_proof_hex = ''00'',
      public_inputs = [], verification_key = ''ff''\<rparr>"

text \<open>A stand-in for WebCrypto's Ed25519: the key is its raw bytes, and a signature
  verifies when it is the key followed by the message. Argon2id and the digest fail.\<close>

definition toyEd25519Prims :: "bytes primitives" where
  "toyEd25519Prims =
     \<lparr>argon2id = (\<lambda>opts. None), importKey = (\<lambda>keyData. Some keyData),
      verify = (\<lambda>key sigData msgData. Some (sigData = key @ msgData)),
      digest = (\<lambda>combined. None)\<rparr>"

definition exampleBatch :: "PendingSignature list" where
  "exampleBatch =
     [\<lparr>tx_id = ''A'', message = ''01'', signature = ''0a01'', public_key = ''0a'',
       algorithm = ''ed25519''\<rparr>,
      \<lparr>tx_id = ''B'', message = ''01'', signature = ''ff01'', public_key = ''0a'',
       algorithm = ''ed25519''\<rparr>,
      \<lparr>tx_id = ''C'', message = ''01'', signature = ''0a01'', public_key = ''0a'',
       algorithm = ''dilithium2''\<rparr>]"

text \<open>A stand-in for SHA-256 that tells the two concatenation orders apart: the first
  32 bytes of its input.\<close>

definition firstHalf :: "bytes \<Rightarrow> bytes" where
  "firstHalf combined = take 32 combined"

definition firstHalfDigest :: "bytes \<Rightarrow> bytes option" where
  "firstHalfDigest combined = Some (firstHalf combined)"

text \<open>A proof path of 33 siblings: 32 all-zero digests, then the all-ones digest.\<close>

definition deepPath :: "string list" where
  "deepPath = replicate 32 zeroDigestHex @ [onesDigestHex]"

section \<open>The codec: counter bytes, and the examples decoded\<close>

text \<open>\<open>counterBytesOf\<close> is the 8-byte big-endian form of the counter modulo \<open>2 ^ 64\<close>.\<close>

lemma digit_step:
  "(c div 256 ^ n) mod 256 * 256 ^ n + c mod 256 ^ n = c mod 256 ^ Suc n" for c :: nat
proof -
  have "c mod (256 ^ n * 256) = 256 ^ n * (c div 256 ^ n mod 256) + c mod 256 ^ n"
    by (rule mod_mult2_eq)
  then show ?thesis by (simp add: mult.commute)
qed

lemma counterBytesOf_big_endian:
  "length (counterBytesOf c) = 8 \<and> beValue (counterBytesOf c) = c mod 2 ^ 64"
proof
  show "length (counterBytesOf c) = 8" by (simp add: counterBytesOf_def)
  define m where "m = c mod 2 ^ 64"
  define d where "d k = m div 256 ^ k mod 256" for k
  define r where "r k = m mod 256 ^ k" for k
  have u: "unat (word_of_nat (m div 256 ^ k) :: byte) = d k" for k
    by (simp add: unat_of_nat d_def)
  have bs: "counterBytesOf c =
      [word_of_nat (m div 256 ^ 7), word_of_nat (m div 256 ^ 6), word_of_nat (m div 256 ^ 5),
       word_of_nat (m div 256 ^ 4), word_of_nat (m div 256 ^ 3), word_of_nat (m div 256 ^ 2),
       word_of_nat (m div 256 ^ 1), word_of_nat (m div 256 ^ 0)]"
    unfolding counterBytesOf_def m_def by (simp add: upt_conv_Cons)
  have v: "beValue (counterBytesOf c) =
      ((((((d 7 * 256 + d 6) * 256 + d 5) * 256 + d 4) * 256 + d 3) * 256 + d 2) * 256 + d 1) * 256 + d 0"
    unfolding bs beValue_def by (simp only: foldl.simps u) simp
  have s: "d k * 256 ^ k + r k = r (Suc k)" for k
    unfolding d_def r_def by (rule digit_step)
  have r0: "r 0 = 0" by (simp add: r_def)
  have r8: "r 8 = m" by (simp add: r_def m_def)
  have s0: "d 0 + r 0 = r 1" using s [of 0] by simp
  have two: "Suc (Suc 0) = 2" by simp
  have s1: "d 1 * 256 + r 1 = r 2" using s [of 1] by (simp add: two)
  have s2: "d 2 * 65536 + r 2 = r 3" using s [of 2] by simp
  have s3: "d 3 * 16777216 + r 3 = r 4" using s [of 3] by simp
  have s4: "d 4 * 4294967296 + r 4 = r 5" using s [of 4] by simp
  have s5: "d 5 * 1099511627776 + r 5 = r 6" using s [of 5] by simp
  have s6: "d 6 * 281474976710656 + r 6 = r 7" using s [of 6] by simp
  have s7: "d 7 * 72057594037927936 + r 7 = r 8" using s [of 7] by simp
  have "((((((d 7 * 256 + d 6) * 256 + d 5) * 256 + d 4) * 256 + d 3) * 256 + d 2) * 256 + d 1) * 256 + d 0 = m"
  proof -
    have "((((((d 7 * 256 + d 6) * 256 + d 5) * 256 + d 4) * 256 + d 3) * 256 + d 2) * 256 + d 1) * 256 + d 0
        = d 7 * 72057594037927936 + d 6 * 281474976710656 + d 5 * 1099511627776
          + d 4 * 4294967296 + d 3 * 16777216 + d 2 * 65536 + d 1 * 256 + d 0"
      by (simp add: add_mult_distrib)
    then show ?thesis
      using r0 r8 s0 s1 s2 s3 s4 s5 s6 s7 by linarith
  qed
  with v show "beValue (counterBytesOf c) = c mod 2 ^ 64" by (simp add: m_def)
qed

lemma zeroDigestHex_length: "length (hexToBytes zeroDigestHex) = 32"
  by (simp add: hexToBytes_def zeroDigestHex_def)

lemma zeroDigest_passes: "hasLeadingZeros (hexToBytes zeroDigestHex) 8"
  by code_simp

lemma onesDigest_fails: "\<not> hasLeadingZeros (hexToBytes onesDigestHex) 8"
  by code_simp

lemma counterBytesOf_small: "counterBytesOf 0 = [0,0,0,0,0,0,0,0]" "counterBytesOf (Suc 0) = [0,0,0,0,0,0,0,1]"
  "counterBytesOf 2 = [0,0,0,0,0,0,0,2]"
  by (simp_all add: counterBytesOf_def upt_conv_Cons)

lemma bytesToHex_two: "bytesToHex [0,0,0,0,0,0,0,2] = ''0000000000000002''"
  by code_simp

section \<open>Properties of the leading-zero-bit test\<close>

lemma zeroBytesLoop_iff:
  "zeroBytesLoop h fullBytes i \<longleftrightarrow> (\<forall>k. i \<le> k \<and> int k < fullBytes \<longrightarrow> k < length h \<and> h ! k = 0)"
proof (induction h fullBytes i rule: zeroBytesLoop.induct)
  case (1 h fullBytes i)
  show ?case
  proof (cases "int i < fullBytes")
    case False
    then show ?thesis by (subst zeroBytesLoop.simps) auto
  next
    case True
    show ?thesis
    proof (cases "js_index h i = Some 0")
      case False
      with True show ?thesis
        by (subst zeroBytesLoop.simps) (auto simp: js_index_def split: if_splits)
    next
      case z: True
      then have hi: "i < length h" "h ! i = 0"
        by (auto simp: js_index_def split: if_splits)
      have "zeroBytesLoop h fullBytes i = zeroBytesLoop h fullBytes (Suc i)"
        using True z by (subst zeroBytesLoop.simps) simp
      also have "\<dots> \<longleftrightarrow> (\<forall>k. Suc i \<le> k \<and> int k < fullBytes \<longrightarrow> k < length h \<and> h ! k = 0)"
        using 1 True z by simp
      also have "\<dots> \<longleftrightarrow> (\<forall>k. i \<le> k \<and> int k < fullBytes \<longrightarrow> k < length h \<and> h ! k = 0)"
      proof (intro iffI allI impI)
        fix k
        assume a: "\<forall>k. Suc i \<le> k \<and> int k < fullBytes \<longrightarrow> k < length h \<and> h ! k = 0"
          and b: "i \<le> k \<and> int k < fullBytes"
        show "k < length h \<and> h ! k = 0"
        proof (cases "k = i")
          case True
          with hi show ?thesis by simp
        next
          case False
          with b have "Suc i \<le> k" by simp
          with a b show ?thesis by blast
        qed
      next
        fix k
        assume a: "\<forall>k. i \<le> k \<and> int k < fullBytes \<longrightarrow> k < length h \<and> h ! k = 0"
          and b: "Suc i \<le> k \<and> int k < fullBytes"
        from b have "i \<le> k \<and> int k < fullBytes" by simp
        with a show "k < length h \<and> h ! k = 0" by blast
      qed
      finally show ?thesis .
    qed
  qed
qed

lemma take_eq_replicate_iff:
  "take n xs = replicate n (0::byte) \<longleftrightarrow> (\<forall>k<n. k < length xs \<and> xs ! k = 0)"
proof
  assume h: "take n xs = replicate n 0"
  then have "length (take n xs) = n" by simp
  then have len: "n \<le> length xs" by simp
  show "\<forall>k<n. k < length xs \<and> xs ! k = 0"
  proof (intro allI impI)
    fix k assume k: "k < n"
    have "take n xs ! k = replicate n (0::byte) ! k" using h by simp
    with k len show "k < length xs \<and> xs ! k = 0" by simp
  qed
next
  assume h: "\<forall>k<n. k < length xs \<and> xs ! k = 0"
  have len: "n \<le> length xs"
  proof (cases n)
    case 0 then show ?thesis by simp
  next
    case (Suc m)
    with h have "m < length xs" by simp
    with Suc show ?thesis by simp
  qed
  show "take n xs = replicate n 0"
    by (rule nth_equalityI) (use h len in auto)
qed

lemma toInt32_id: "- 2147483648 \<le> x \<Longrightarrow> x < 2147483648 \<Longrightarrow> toInt32 x = x"
  unfolding toInt32_def by (simp add: signed_take_bit_int_eq_self)

lemma bit_255: "bit (255::int) n \<longleftrightarrow> n < 8"
proof -
  have h: "(255::int) = mask 8" by (simp add: mask_eq_exp_minus_1)
  show ?thesis
    by (subst h) (simp only: bit_mask_iff possible_bit_int simp_thms)
qed

lemma uint_byte_range: "- 2147483648 \<le> uint (b::byte)" "uint (b::byte) < 2147483648"
proof -
  have "0 \<le> uint b" by simp
  then show "- 2147483648 \<le> uint b" by linarith
  have "uint b < 2 ^ 8" using uint_bounded [of b] by simp
  then show "uint b < 2147483648" by simp
qed

lemma push_255_range:
  assumes "s \<le> 8"
  shows "- 2147483648 \<le> push_bit s (255::int)" "push_bit s (255::int) < 2147483648"
proof -
  have "0 \<le> push_bit s (255::int)" by simp
  then show "- 2147483648 \<le> push_bit s (255::int)" by linarith
  have p: "(2::int) ^ s \<le> 2 ^ 8" using assms by (intro power_increasing) simp_all
  have "push_bit s (255::int) = 255 * 2 ^ s" by (simp add: push_bit_eq_mult)
  also have "\<dots> \<le> 255 * 2 ^ 8" using p by simp
  also have "\<dots> < 2147483648" by simp
  finally show "push_bit s (255::int) < 2147483648" .
qed

lemma mask_test:
  assumes "0 < r" "r < 8"
  shows "js_and (uint (b::byte)) (js_shl 255 (8 - r)) = 0 \<longleftrightarrow> (\<forall>j \<in> {8 - nat r..<8}. \<not> bit b j)"
proof -
  define s where "s = nat (8 - r)"
  have s: "s \<le> 8" "s = 8 - nat r" "nat ((8 - r) mod 32) = s" using assms by (auto simp: s_def)
  have m: "js_shl 255 (8 - r) = push_bit s 255"
    unfolding js_shl_def s(3) by (simp add: toInt32_id push_255_range [OF s(1)])
  have "js_and (uint b) (js_shl 255 (8 - r)) = uint b AND push_bit s 255"
    unfolding js_and_def m
    by (simp only: toInt32_id [OF push_255_range [OF s(1)]] toInt32_id [OF uint_byte_range])
  also have "\<dots> = 0 \<longleftrightarrow> (\<forall>n\<ge>s. bit b n \<longrightarrow> n < 8 \<longrightarrow> \<not> n - s < 8)"
    by (simp add: bit_eq_iff bit_and_iff bit_uint_iff bit_push_bit_iff bit_255)
  also have "\<dots> \<longleftrightarrow> (\<forall>j \<in> {s..<8}. \<not> bit b j)"
  proof (intro iffI ballI allI impI)
    fix j assume a: "\<forall>n\<ge>s. bit b n \<longrightarrow> n < 8 \<longrightarrow> \<not> n - s < 8" and j: "j \<in> {s..<8}"
    show "\<not> bit b j"
    proof
      assume "bit b j"
      with a j have "\<not> j - s < 8" by simp
      with j show False by (simp add: less_imp_diff_less)
    qed
  next
    fix n assume a: "\<forall>j \<in> {s..<8}. \<not> bit b j" and n: "s \<le> n" "bit b n" "n < 8"
    then have "n \<in> {s..<8}" by simp
    with a n show "\<not> n - s < 8" by blast
  qed
  finally show ?thesis unfolding s(2) .
qed

lemma js_rem_nonneg: "0 \<le> a \<Longrightarrow> js_rem a 8 = a mod 8"
  by (cases "a = 0") (simp_all add: js_rem_def)

text \<open>
  Claim C4. For every digest and every \<open>requiredBits\<close> from 0 to 256,
  \<^verbatim>\<open>hasLeadingZeros\<close> returns true exactly when the digest starts with
  \<open>requiredBits div 8\<close> zero bytes and, when \<open>requiredBits mod 8 > 0\<close> and the byte at
  index \<open>requiredBits div 8\<close> is within the digest, the top \<open>requiredBits mod 8\<close> bits of
  that byte are zero; a remainder byte beyond the end of the digest is not tested. The
  function is a HOL function of its two arguments, hence deterministic and pure.
\<close>

theorem hasLeadingZeros_spec:
  assumes "0 \<le> requiredBits" and "requiredBits \<le> 256"
  shows "hasLeadingZeros d requiredBits = hasRequiredZeroBits_spec d (nat requiredBits)"
proof -
  define n where "n = nat requiredBits"
  have rb: "requiredBits = int n" using assms by (simp add: n_def)
  have fb: "requiredBits div 8 = int (n div 8)" by (simp add: rb zdiv_int)
  have rm: "js_rem requiredBits 8 = int (n mod 8)" using assms by (simp add: js_rem_nonneg rb zmod_int)
  have loop: "zeroBytesLoop d (int (n div 8)) 0 \<longleftrightarrow> take (n div 8) d = replicate (n div 8) 0"
    by (simp add: zeroBytesLoop_iff take_eq_replicate_iff)
  show ?thesis
  proof (cases "0 < n mod 8 \<and> n div 8 < length d")
    case False
    then show ?thesis
      unfolding hasLeadingZeros_def hasRequiredZeroBits_spec_def Let_def fb rm loop n_def [symmetric]
      by auto
  next
    case True
    then have "0 < int (n mod 8)" "int (n mod 8) < 8" by simp_all
    from mask_test [OF this, of "d ! (n div 8)"] True show ?thesis
      unfolding hasLeadingZeros_def hasRequiredZeroBits_spec_def Let_def fb rm loop n_def [symmetric]
      by auto
  qed
qed

theorem hasLeadingZeros_spec_witness:
  "(0::int) \<le> 12 \<and> (12::int) \<le> 256
   \<and> hasRequiredZeroBits_spec [0, 0x0f] (nat 12) \<and> \<not> hasRequiredZeroBits_spec [0, 0x1f] (nat 12)"
proof -
  have a: "hasLeadingZeros [0, 0x0f] 12" by code_simp
  have b: "\<not> hasLeadingZeros [0, 0x1f] 12" by code_simp
  show ?thesis
    using a b hasLeadingZeros_spec [of 12 "[0, 0x0f]"] hasLeadingZeros_spec [of 12 "[0, 0x1f]"]
    by simp
qed

section \<open>The proof-of-work search of ChallengeService\<close>

lemma solveLoop_miss:
  assumes "counter < maxAttempts"
    and "\<exists>h. prim (powOptions ch s counter) = Some h \<and> \<not> hasLeadingZeros (hexToBytes h) (difficulty ch)"
  shows "solveLoop prim ch s maxAttempts counter =
           (Argon2idCall (powOptions ch s counter) # fst (solveLoop prim ch s maxAttempts (Suc counter)),
            snd (solveLoop prim ch s maxAttempts (Suc counter)))"
  using assms
  by (subst solveLoop.simps) (auto split: option.splits prod.splits)

lemma solveLoop_hit:
  assumes "counter < maxAttempts" and "prim (powOptions ch s counter) = Some hashHex"
    and "hasLeadingZeros (hexToBytes hashHex) (difficulty ch)"
  shows "solveLoop prim ch s maxAttempts counter =
           ([Argon2idCall (powOptions ch s counter)],
            Inr \<lparr>solved_challenge_id = challenge_id ch,
                 solution = bytesToHex (counterBytesOf counter), hash = hashHex\<rparr>)"
  using assms by (subst solveLoop.simps) simp

lemma solveLoop_throw:
  assumes "counter < maxAttempts" and "prim (powOptions ch s counter) = None"
  shows "solveLoop prim ch s maxAttempts counter =
           ([Argon2idCall (powOptions ch s counter)], Inl (ChallengeError WASM_FAILED))"
  using assms by (subst solveLoop.simps) simp

lemma solveLoop_end:
  "solveLoop prim ch s maxAttempts maxAttempts = ([], Inl (ChallengeError SOLVE_FAILED))"
  by (subst solveLoop.simps) simp

lemma solveLoop_skip:
  assumes "c0 + n \<le> maxAttempts"
    and "\<forall>k. c0 \<le> k \<and> k < c0 + n \<longrightarrow>
           (\<exists>h. prim (powOptions ch s k) = Some h \<and> \<not> hasLeadingZeros (hexToBytes h) (difficulty ch))"
  shows "solveLoop prim ch s maxAttempts c0 =
           (map (\<lambda>k. Argon2idCall (powOptions ch s k)) [c0..<c0 + n]
              @ fst (solveLoop prim ch s maxAttempts (c0 + n)),
            snd (solveLoop prim ch s maxAttempts (c0 + n)))"
  using assms
proof (induction n arbitrary: c0)
  case 0
  then show ?case by simp
next
  case (Suc n)
  have m: "\<exists>h. prim (powOptions ch s c0) = Some h \<and> \<not> hasLeadingZeros (hexToBytes h) (difficulty ch)"
    using Suc.prems(2) by simp
  have lt: "c0 < maxAttempts" using Suc.prems(1) by simp
  have ih: "solveLoop prim ch s maxAttempts (Suc c0) =
           (map (\<lambda>k. Argon2idCall (powOptions ch s k)) [Suc c0..<Suc c0 + n]
              @ fst (solveLoop prim ch s maxAttempts (Suc c0 + n)),
            snd (solveLoop prim ch s maxAttempts (Suc c0 + n)))"
    using Suc.prems by (intro Suc.IH) auto
  have up: "[c0..<c0 + Suc n] = c0 # [Suc c0..<Suc c0 + n]"
    by (simp add: upt_conv_Cons)
  show ?case
    unfolding solveLoop_miss [where prim = prim, OF lt m] up by (subst (1 2) ih) simp
qed

lemma solveLoop_first_hit:
  assumes "c < maxAttempts"
    and "\<forall>k<c. \<exists>h. prim (powOptions ch s k) = Some h \<and> \<not> hasLeadingZeros (hexToBytes h) (difficulty ch)"
    and "prim (powOptions ch s c) = Some hashHex"
    and "hasLeadingZeros (hexToBytes hashHex) (difficulty ch)"
  shows "solveLoop prim ch s maxAttempts 0 =
           (map (\<lambda>k. Argon2idCall (powOptions ch s k)) [0..<Suc c],
            Inr \<lparr>solved_challenge_id = challenge_id ch,
                 solution = bytesToHex (counterBytesOf c), hash = hashHex\<rparr>)"
proof -
  have "solveLoop prim ch s maxAttempts 0 =
           (map (\<lambda>k. Argon2idCall (powOptions ch s k)) [0..<0 + c]
              @ fst (solveLoop prim ch s maxAttempts (0 + c)),
            snd (solveLoop prim ch s maxAttempts (0 + c)))"
    using assms(1,2) by (intro solveLoop_skip) auto
  then show ?thesis
    by (simp add: solveLoop_hit [where prim = prim, OF assms(1,3,4)])
qed

lemma solveLoop_exhausted:
  assumes "\<forall>k<maxAttempts. \<exists>h. prim (powOptions ch s k) = Some h
             \<and> \<not> hasLeadingZeros (hexToBytes h) (difficulty ch)"
  shows "solveLoop prim ch s maxAttempts 0 =
           (map (\<lambda>k. Argon2idCall (powOptions ch s k)) [0..<maxAttempts],
            Inl (ChallengeError SOLVE_FAILED))"
proof -
  have "solveLoop prim ch s maxAttempts 0 =
           (map (\<lambda>k. Argon2idCall (powOptions ch s k)) [0..<0 + maxAttempts]
              @ fst (solveLoop prim ch s maxAttempts (0 + maxAttempts)),
            snd (solveLoop prim ch s maxAttempts (0 + maxAttempts)))"
    using assms by (intro solveLoop_skip) auto
  then show ?thesis by (simp add: solveLoop_end)
qed

lemma solveLoop_first_throw:
  assumes "c < maxAttempts"
    and "\<forall>k<c. \<exists>h. prim (powOptions ch s k) = Some h \<and> \<not> hasLeadingZeros (hexToBytes h) (difficulty ch)"
    and "prim (powOptions ch s c) = None"
  shows "solveLoop prim ch s maxAttempts 0 =
           (map (\<lambda>k. Argon2idCall (powOptions ch s k)) [0..<Suc c],
            Inl (ChallengeError WASM_FAILED))"
proof -
  have "solveLoop prim ch s maxAttempts 0 =
           (map (\<lambda>k. Argon2idCall (powOptions ch s k)) [0..<0 + c]
              @ fst (solveLoop prim ch s maxAttempts (0 + c)),
            snd (solveLoop prim ch s maxAttempts (0 + c)))"
    using assms(1,2) by (intro solveLoop_skip) auto
  then show ?thesis
    by (simp add: solveLoop_throw [where prim = prim, OF assms(1,3)])
qed

lemma solveLoop_outcome:
  "snd (solveLoop prim ch s maxAttempts counter) = Inl (ChallengeError WASM_FAILED)
   \<or> snd (solveLoop prim ch s maxAttempts counter) = Inl (ChallengeError SOLVE_FAILED)
   \<or> (\<exists>r. snd (solveLoop prim ch s maxAttempts counter) = Inr r)"
proof (induction prim ch s maxAttempts counter rule: solveLoop.induct)
  case (1 prim ch s maxAttempts counter)
  show ?case
  proof (cases "counter < maxAttempts")
    case False
    then show ?thesis by (subst (1 2 3) solveLoop.simps) simp
  next
    case lt: True
    show ?thesis
    proof (cases "prim (powOptions ch s counter)")
      case None
      then show ?thesis using lt by (simp add: solveLoop_throw)
    next
      case (Some hashHex)
      show ?thesis
      proof (cases "hasLeadingZeros (hexToBytes hashHex) (difficulty ch)")
        case True
        then show ?thesis using lt Some by (simp add: solveLoop_hit)
      next
        case False
        then have m: "\<exists>h. prim (powOptions ch s counter) = Some h \<and> \<not> hasLeadingZeros (hexToBytes h) (difficulty ch)"
          using Some by simp
        show ?thesis
          unfolding solveLoop_miss [where prim = prim, OF lt m] using "1.IH" [OF lt Some False] by simp
      qed
    qed
  qed
qed

text \<open>
  Claim C1. For a challenge that has not expired and whose nonce decodes to exactly 32
  bytes, \<^verbatim>\<open>ChallengeService.solveChallenge\<close> calls Argon2id for the counters
  \<open>0, 1, 2, ...\<close> below \<open>maxAttempts\<close> (10000 by default), with password the 8-byte
  big-endian counter, salt the decoded nonce, memory \<open>memory_cost\<close>, iterations
  \<open>time_cost\<close>, parallelism 1 and a 32-byte output. At the first counter whose digest
  passes the leading-zero-bit test at the challenge's difficulty it returns the
  hexadecimal form of that counter's 8 bytes together with that digest; when the digest
  of every counter below \<open>maxAttempts\<close> fails the test it throws \<^verbatim>\<open>SOLVE_FAILED\<close>.
  The log lists exactly the Argon2id calls made; that the password bytes are the
  big-endian form of the counter is \<open>counterBytesOf_big_endian\<close>.
\<close>

theorem solveChallenge_search:
  assumes "now \<le> expires_at ch"
    and "length (hexToBytes (nonce ch)) = 32"
  shows "(\<forall>c hashHex.
            c < maxAttempts
            \<and> (\<forall>k<c. \<exists>h. prim \<lparr>password = counterBytesOf k, salt = hexToBytes (nonce ch),
                               memorySize = memory_cost ch, iterations = time_cost ch,
                               parallelism = 1, hashLength = 32\<rparr> = Some h
                          \<and> \<not> hasLeadingZeros (hexToBytes h) (difficulty ch))
            \<and> prim \<lparr>password = counterBytesOf c, salt = hexToBytes (nonce ch),
                    memorySize = memory_cost ch, iterations = time_cost ch,
                    parallelism = 1, hashLength = 32\<rparr> = Some hashHex
            \<and> hasLeadingZeros (hexToBytes hashHex) (difficulty ch)
            \<longrightarrow> solveChallenge prim now ch maxAttempts =
                  (map (\<lambda>k. Argon2idCall \<lparr>password = counterBytesOf k, salt = hexToBytes (nonce ch),
                               memorySize = memory_cost ch, iterations = time_cost ch,
                               parallelism = 1, hashLength = 32\<rparr>) [0..<Suc c],
                   Inr \<lparr>solved_challenge_id = challenge_id ch,
                        solution = bytesToHex (counterBytesOf c), hash = hashHex\<rparr>))
         \<and> ((\<forall>k<maxAttempts. \<exists>h. prim \<lparr>password = counterBytesOf k, salt = hexToBytes (nonce ch),
                               memorySize = memory_cost ch, iterations = time_cost ch,
                               parallelism = 1, hashLength = 32\<rparr> = Some h
                          \<and> \<not> hasLeadingZeros (hexToBytes h) (difficulty ch))
            \<longrightarrow> solveChallenge prim now ch maxAttempts =
                  (map (\<lambda>k. Argon2idCall \<lparr>password = counterBytesOf k, salt = hexToBytes (nonce ch),
                               memorySize = memory_cost ch, iterations = time_cost ch,
                               parallelism = 1, hashLength = 32\<rparr>) [0..<maxAttempts],
                   Inl (ChallengeError SOLVE_FAILED)))
         \<and> defaultMaxAttempts = 10000"
proof -
  have opts: "\<And>k. \<lparr>password = counterBytesOf k, salt = hexToBytes (nonce ch),
                               memorySize = memory_cost ch, iterations = time_cost ch,
                               parallelism = 1, hashLength = 32\<rparr>
               = powOptions ch (hexToBytes (nonce ch)) k"
    by (simp add: powOptions_def DEFAULT_PARALLELISM_def DEFAULT_HASH_LENGTH_def)
  have entry: "solveChallenge prim now ch maxAttempts
                 = solveLoop prim ch (hexToBytes (nonce ch)) maxAttempts 0"
    using assms by (simp add: solveChallenge_def)
  show ?thesis
    unfolding opts entry
  proof (intro conjI allI impI)
    fix c hashHex
    assume h: "c < maxAttempts
        \<and> (\<forall>k<c. \<exists>h. prim (powOptions ch (hexToBytes (nonce ch)) k) = Some h \<and>
                   \<not> hasLeadingZeros (hexToBytes h) (difficulty ch))
        \<and> prim (powOptions ch (hexToBytes (nonce ch)) c) = Some hashHex
        \<and> hasLeadingZeros (hexToBytes hashHex) (difficulty ch)"
    then show "solveLoop prim ch (hexToBytes (nonce ch)) maxAttempts 0 =
        (map (\<lambda>k. Argon2idCall (powOptions ch (hexToBytes (nonce ch)) k)) [0..<Suc c],
         Inr \<lparr>solved_challenge_id = challenge_id ch,
              solution = bytesToHex (counterBytesOf c), hash = hashHex\<rparr>)"
      by (intro solveLoop_first_hit) blast+
  next
    assume "\<forall>k<maxAttempts. \<exists>h. prim (powOptions ch (hexToBytes (nonce ch)) k) = Some h \<and>
                   \<not> hasLeadingZeros (hexToBytes h) (difficulty ch)"
    then show "solveLoop prim ch (hexToBytes (nonce ch)) maxAttempts 0 =
        (map (\<lambda>k. Argon2idCall (powOptions ch (hexToBytes (nonce ch)) k)) [0..<maxAttempts],
         Inl (ChallengeError SOLVE_FAILED))"
      by (rule solveLoop_exhausted)
  next
    show "defaultMaxAttempts = 10000" by (simp add: defaultMaxAttempts_def)
  qed
qed

theorem solveChallenge_search_witness:
  "(1000::int) \<le> expires_at exampleChallenge
   \<and> length (hexToBytes (nonce exampleChallenge)) = 32
   \<and> snd (solveChallenge hitAtTwo 1000 exampleChallenge 10000) =
       Inr \<lparr>solved_challenge_id = ''c-1'', solution = ''0000000000000002'', hash = zeroDigestHex\<rparr>
   \<and> length (fst (solveChallenge hitAtTwo 1000 exampleChallenge 10000)) = 3
   \<and> snd (solveChallenge alwaysMiss 1000 exampleChallenge 5) = Inl (ChallengeError SOLVE_FAILED)
   \<and> length (fst (solveChallenge alwaysMiss 1000 exampleChallenge 5)) = 5"
proof -
  have e: "(1000::int) \<le> expires_at exampleChallenge" by (simp add: exampleChallenge_def)
  have n: "length (hexToBytes (nonce exampleChallenge)) = 32"
    by (simp add: exampleChallenge_def zeroDigestHex_length)
  have d: "difficulty exampleChallenge = 8" by (simp add: exampleChallenge_def)
  have before: "\<forall>k<2. \<exists>h. hitAtTwo \<lparr>password = counterBytesOf k,
              salt = hexToBytes (nonce exampleChallenge),
              memorySize = memory_cost exampleChallenge, iterations = time_cost exampleChallenge,
              parallelism = 1, hashLength = 32\<rparr> = Some h
           \<and> \<not> hasLeadingZeros (hexToBytes h) (difficulty exampleChallenge)"
  proof (intro allI impI)
    fix k :: nat
    assume "k < 2"
    then have "k = 0 \<or> k = Suc 0" by auto
    then show "\<exists>h. hitAtTwo \<lparr>password = counterBytesOf k,
              salt = hexToBytes (nonce exampleChallenge),
              memorySize = memory_cost exampleChallenge, iterations = time_cost exampleChallenge,
              parallelism = 1, hashLength = 32\<rparr> = Some h
           \<and> \<not> hasLeadingZeros (hexToBytes h) (difficulty exampleChallenge)"
      unfolding d by (auto simp: hitAtTwo_def counterBytesOf_small onesDigest_fails)
  qed
  have at: "hitAtTwo \<lparr>password = counterBytesOf 2,
              salt = hexToBytes (nonce exampleChallenge),
              memorySize = memory_cost exampleChallenge, iterations = time_cost exampleChallenge,
              parallelism = 1, hashLength = 32\<rparr> = Some zeroDigestHex"
    by (simp add: hitAtTwo_def counterBytesOf_small)
  have pass: "hasLeadingZeros (hexToBytes zeroDigestHex) (difficulty exampleChallenge)"
    unfolding d by (rule zeroDigest_passes)
  have hit: "solveChallenge hitAtTwo 1000 exampleChallenge 10000 =
      (map (\<lambda>k. Argon2idCall \<lparr>password = counterBytesOf k,
              salt = hexToBytes (nonce exampleChallenge),
              memorySize = memory_cost exampleChallenge, iterations = time_cost exampleChallenge,
              parallelism = 1, hashLength = 32\<rparr>) [0..<Suc 2],
       Inr \<lparr>solved_challenge_id = challenge_id exampleChallenge,
            solution = bytesToHex (counterBytesOf 2), hash = zeroDigestHex\<rparr>)"
    using solveChallenge_search [OF e n, of 10000 hitAtTwo, THEN conjunct1, rule_format, of 2 zeroDigestHex]
      before at pass by simp
  have never: "\<forall>k<5. \<exists>h. alwaysMiss \<lparr>password = counterBytesOf k,
              salt = hexToBytes (nonce exampleChallenge),
              memorySize = memory_cost exampleChallenge, iterations = time_cost exampleChallenge,
              parallelism = 1, hashLength = 32\<rparr> = Some h
           \<and> \<not> hasLeadingZeros (hexToBytes h) (difficulty exampleChallenge)"
    unfolding d by (simp add: alwaysMiss_def onesDigest_fails)
  have miss: "solveChallenge alwaysMiss 1000 exampleChallenge 5 =
      (map (\<lambda>k. Argon2idCall \<lparr>password = counterBytesOf k,
              salt = hexToBytes (nonce exampleChallenge),
              memorySize = memory_cost exampleChallenge, iterations = time_cost exampleChallenge,
              parallelism = 1, hashLength = 32\<rparr>) [0..<5],
       Inl (ChallengeError SOLVE_FAILED))"
    using solveChallenge_search [OF e n, of 5 alwaysMiss, THEN conjunct2, THEN conjunct1] never
    by blast
  have c: "challenge_id exampleChallenge = ''c-1''" by (simp add: exampleChallenge_def)
  show ?thesis
    unfolding hit miss c using e n by (simp add: counterBytesOf_small bytesToHex_two)
qed

section \<open>The proof-of-work search of NuwChallengeService\<close>

lemma argon2Loop_miss:
  assumes "counter < maxAttempts"
    and "\<exists>h. prim (nuwOptions ps counter) = Some h
           \<and> \<not> hasLeadingZeros (hexToBytes h) (params_difficulty ps)"
  shows "argon2Loop prim ch ps maxAttempts counter =
           (Argon2idCall (nuwOptions ps counter) # fst (argon2Loop prim ch ps maxAttempts (Suc counter)),
            snd (argon2Loop prim ch ps maxAttempts (Suc counter)))"
  using assms
  by (subst argon2Loop.simps) (auto split: option.splits prod.splits)

lemma argon2Loop_hit:
  assumes "counter < maxAttempts" and "prim (nuwOptions ps counter) = Some hashHex"
    and "hasLeadingZeros (hexToBytes hashHex) (params_difficulty ps)"
  shows "argon2Loop prim ch ps maxAttempts counter =
           ([Argon2idCall (nuwOptions ps counter)],
            Inr \<lparr>solution_challenge_id = nuw_challenge_id ch,
                 solution_challenge_type = ARGON2_POW,
                 argon2_solution = Some (bytesToHex (counterBytesOf counter)),
                 signature_results = None, zk_result = None, merkle_results = None\<rparr>)"
  using assms by (subst argon2Loop.simps) simp

lemma argon2Loop_throw:
  assumes "counter < maxAttempts" and "prim (nuwOptions ps counter) = None"
  shows "argon2Loop prim ch ps maxAttempts counter =
           ([Argon2idCall (nuwOptions ps counter)], Inl (NuwChallengeError SOLVE_FAILED))"
  using assms by (subst argon2Loop.simps) simp

lemma argon2Loop_end:
  "argon2Loop prim ch ps maxAttempts maxAttempts = ([], Inl (NuwChallengeError SOLVE_FAILED))"
  by (subst argon2Loop.simps) simp

lemma argon2Loop_skip:
  assumes "c0 + n \<le> maxAttempts"
    and "\<forall>k. c0 \<le> k \<and> k < c0 + n \<longrightarrow>
           (\<exists>h. prim (nuwOptions ps k) = Some h
              \<and> \<not> hasLeadingZeros (hexToBytes h) (params_difficulty ps))"
  shows "argon2Loop prim ch ps maxAttempts c0 =
           (map (\<lambda>k. Argon2idCall (nuwOptions ps k)) [c0..<c0 + n]
              @ fst (argon2Loop prim ch ps maxAttempts (c0 + n)),
            snd (argon2Loop prim ch ps maxAttempts (c0 + n)))"
  using assms
proof (induction n arbitrary: c0)
  case 0
  then show ?case by simp
next
  case (Suc n)
  have m: "\<exists>h. prim (nuwOptions ps c0) = Some h
             \<and> \<not> hasLeadingZeros (hexToBytes h) (params_difficulty ps)"
    using Suc.prems(2) by simp
  have lt: "c0 < maxAttempts" using Suc.prems(1) by simp
  have ih: "argon2Loop prim ch ps maxAttempts (Suc c0) =
           (map (\<lambda>k. Argon2idCall (nuwOptions ps k)) [Suc c0..<Suc c0 + n]
              @ fst (argon2Loop prim ch ps maxAttempts (Suc c0 + n)),
            snd (argon2Loop prim ch ps maxAttempts (Suc c0 + n)))"
    using Suc.prems by (intro Suc.IH) auto
  have up: "[c0..<c0 + Suc n] = c0 # [Suc c0..<Suc c0 + n]"
    by (simp add: upt_conv_Cons)
  show ?case
    unfolding argon2Loop_miss [where prim = prim, OF lt m] up by (subst (1 2) ih) simp
qed

lemma argon2Loop_first_hit:
  assumes "c < maxAttempts"
    and "\<forall>k<c. \<exists>h. prim (nuwOptions ps k) = Some h
           \<and> \<not> hasLeadingZeros (hexToBytes h) (params_difficulty ps)"
    and "prim (nuwOptions ps c) = Some hashHex"
    and "hasLeadingZeros (hexToBytes hashHex) (params_difficulty ps)"
  shows "argon2Loop prim ch ps maxAttempts 0 =
           (map (\<lambda>k. Argon2idCall (nuwOptions ps k)) [0..<Suc c],
            Inr \<lparr>solution_challenge_id = nuw_challenge_id ch,
                 solution_challenge_type = ARGON2_POW,
                 argon2_solution = Some (bytesToHex (counterBytesOf c)),
                 signature_results = None, zk_result = None, merkle_results = None\<rparr>)"
proof -
  have "argon2Loop prim ch ps maxAttempts 0 =
           (map (\<lambda>k. Argon2idCall (nuwOptions ps k)) [0..<0 + c]
              @ fst (argon2Loop prim ch ps maxAttempts (0 + c)),
            snd (argon2Loop prim ch ps maxAttempts (0 + c)))"
    using assms(1,2) by (intro argon2Loop_skip) auto
  then show ?thesis
    by (simp add: argon2Loop_hit [where prim = prim, OF assms(1,3,4)])
qed

lemma argon2Loop_first_throw:
  assumes "c < maxAttempts"
    and "\<forall>k<c. \<exists>h. prim (nuwOptions ps k) = Some h
           \<and> \<not> hasLeadingZeros (hexToBytes h) (params_difficulty ps)"
    and "prim (nuwOptions ps c) = None"
  shows "argon2Loop prim ch ps maxAttempts 0 =
           (map (\<lambda>k. Argon2idCall (nuwOptions ps k)) [0..<Suc c],
            Inl (NuwChallengeError SOLVE_FAILED))"
proof -
  have "argon2Loop prim ch ps maxAttempts 0 =
           (map (\<lambda>k. Argon2idCall (nuwOptions ps k)) [0..<0 + c]
              @ fst (argon2Loop prim ch ps maxAttempts (0 + c)),
            snd (argon2Loop prim ch ps maxAttempts (0 + c)))"
    using assms(1,2) by (intro argon2Loop_skip) auto
  then show ?thesis
    by (simp add: argon2Loop_throw [where prim = prim, OF assms(1,3)])
qed

lemma argon2Loop_outcome:
  "snd (argon2Loop prim ch ps maxAttempts counter) = Inl (NuwChallengeError SOLVE_FAILED)
   \<or> (\<exists>k. snd (argon2Loop prim ch ps maxAttempts counter) =
         Inr \<lparr>solution_challenge_id = nuw_challenge_id ch,
              solution_challenge_type = ARGON2_POW,
              argon2_solution = Some (bytesToHex (counterBytesOf k)),
              signature_results = None, zk_result = None, merkle_results = None\<rparr>)"
proof (induction prim ch ps maxAttempts counter rule: argon2Loop.induct)
  case (1 prim ch ps maxAttempts counter)
  show ?case
  proof (cases "counter < maxAttempts")
    case False
    then show ?thesis by (subst (1 2) argon2Loop.simps) simp
  next
    case lt: True
    show ?thesis
    proof (cases "prim (nuwOptions ps counter)")
      case None
      then show ?thesis using lt by (simp add: argon2Loop_throw)
    next
      case (Some hashHex)
      show ?thesis
      proof (cases "hasLeadingZeros (hexToBytes hashHex) (params_difficulty ps)")
        case True
        then show ?thesis using lt Some by (auto simp: argon2Loop_hit)
      next
        case False
        then have m: "\<exists>h. prim (nuwOptions ps counter) = Some h
                        \<and> \<not> hasLeadingZeros (hexToBytes h) (params_difficulty ps)"
          using Some by simp
        show ?thesis
          unfolding argon2Loop_miss [where prim = prim, OF lt m]
          using "1.IH" [OF lt Some False] by simp
      qed
    qed
  qed
qed

lemma argon2Loop_calls:
  assumes "counter < maxAttempts"
  shows "fst (argon2Loop prim ch ps maxAttempts counter) \<noteq> []"
  using assms
  by (subst argon2Loop.simps) (simp split: option.splits prod.splits)

text \<open>\<^verbatim>\<open>solveArgon2\<close> runs the same search as \<^verbatim>\<open>ChallengeService.solveChallenge\<close>,
  over 10000 counters, and returns the counter without the digest.\<close>

lemma solveArgon2_search:
  assumes "argon2_params nch = Some ps"
  shows "(\<forall>c hashHex.
            c < 10000
            \<and> (\<forall>k<c. \<exists>h. prim (nuwOptions ps k) = Some h
                          \<and> \<not> hasLeadingZeros (hexToBytes h) (params_difficulty ps))
            \<and> prim (nuwOptions ps c) = Some hashHex
            \<and> hasLeadingZeros (hexToBytes hashHex) (params_difficulty ps)
            \<longrightarrow> solveArgon2 prim nch =
                  (map (\<lambda>k. Argon2idCall (nuwOptions ps k)) [0..<Suc c],
                   Inr \<lparr>solution_challenge_id = nuw_challenge_id nch,
                        solution_challenge_type = ARGON2_POW,
                        argon2_solution = Some (bytesToHex (counterBytesOf c)),
                        signature_results = None, zk_result = None, merkle_results = None\<rparr>))
         \<and> ((\<forall>k<10000. \<exists>h. prim (nuwOptions ps k) = Some h
                          \<and> \<not> hasLeadingZeros (hexToBytes h) (params_difficulty ps))
            \<longrightarrow> solveArgon2 prim nch =
                  (map (\<lambda>k. Argon2idCall (nuwOptions ps k)) [0..<10000],
                   Inl (NuwChallengeError SOLVE_FAILED)))"
proof (intro conjI allI impI)
  fix c hashHex
  assume "c < 10000
            \<and> (\<forall>k<c. \<exists>h. prim (nuwOptions ps k) = Some h
                          \<and> \<not> hasLeadingZeros (hexToBytes h) (params_difficulty ps))
            \<and> prim (nuwOptions ps c) = Some hashHex
            \<and> hasLeadingZeros (hexToBytes hashHex) (params_difficulty ps)"
  then have "argon2Loop prim nch ps 10000 0 =
                  (map (\<lambda>k. Argon2idCall (nuwOptions ps k)) [0..<Suc c],
                   Inr \<lparr>solution_challenge_id = nuw_challenge_id nch,
                        solution_challenge_type = ARGON2_POW,
                        argon2_solution = Some (bytesToHex (counterBytesOf c)),
                        signature_results = None, zk_result = None, merkle_results = None\<rparr>)"
    by (intro argon2Loop_first_hit) blast+
  then show "solveArgon2 prim nch =
                  (map (\<lambda>k. Argon2idCall (nuwOptions ps k)) [0..<Suc c],
                   Inr \<lparr>solution_challenge_id = nuw_challenge_id nch,
                        solution_challenge_type = ARGON2_POW,
                        argon2_solution = Some (bytesToHex (counterBytesOf c)),
                        signature_results = None, zk_result = None, merkle_results = None\<rparr>)"
    using assms by (simp add: solveArgon2_def)
next
  assume a: "\<forall>k<10000. \<exists>h. prim (nuwOptions ps k) = Some h
                          \<and> \<not> hasLeadingZeros (hexToBytes h) (params_difficulty ps)"
  have "argon2Loop prim nch ps 10000 0 =
           (map (\<lambda>k. Argon2idCall (nuwOptions ps k)) [0..<0 + 10000]
              @ fst (argon2Loop prim nch ps 10000 (0 + 10000)),
            snd (argon2Loop prim nch ps 10000 (0 + 10000)))"
    using a by (intro argon2Loop_skip) auto
  then have "argon2Loop prim nch ps 10000 0 =
                  (map (\<lambda>k. Argon2idCall (nuwOptions ps k)) [0..<10000],
                   Inl (NuwChallengeError SOLVE_FAILED))"
    by (simp add: argon2Loop_end)
  then show "solveArgon2 prim nch =
                  (map (\<lambda>k. Argon2idCall (nuwOptions ps k)) [0..<10000],
                   Inl (NuwChallengeError SOLVE_FAILED))"
    using assms by (simp add: solveArgon2_def)
qed

section \<open>Outcomes of the solvers and the expiry check\<close>

lemma solveArgon2_outcome:
  "snd (solveArgon2 prim ch) = Inl (NuwChallengeError INVALID)
   \<or> snd (solveArgon2 prim ch) = Inl (NuwChallengeError SOLVE_FAILED)
   \<or> (\<exists>k. snd (solveArgon2 prim ch) =
         Inr \<lparr>solution_challenge_id = nuw_challenge_id ch,
              solution_challenge_type = ARGON2_POW,
              argon2_solution = Some (bytesToHex (counterBytesOf k)),
              signature_results = None, zk_result = None, merkle_results = None\<rparr>)"
proof (cases "argon2_params ch")
  case None
  then show ?thesis by (simp add: solveArgon2_def)
next
  case (Some ps)
  then show ?thesis
    using argon2Loop_outcome [of prim ch ps 10000 0] by (simp add: solveArgon2_def)
qed

lemma solveSignatureBatch_outcome:
  "snd (solveSignatureBatch prims ch) = Inl (NuwChallengeError INVALID)
   \<or> (\<exists>sol. snd (solveSignatureBatch prims ch) = Inr sol)"
  by (simp add: solveSignatureBatch_def split: option.splits prod.splits)

lemma solveZkVerify_outcome:
  "snd (solveZkVerify ch) = Inl (NuwChallengeError INVALID)
   \<or> (\<exists>sol. snd (solveZkVerify ch) = Inr sol)"
  by (simp add: solveZkVerify_def split: option.splits)

lemma merkleLoop_error:
  "merkleLoop dg idx path i current = (calls, Inl e) \<Longrightarrow> e = RangeError \<or> e = DigestRejected"
proof (induction path arbitrary: i current calls)
  case Nil
  then show ?case by simp
next
  case (Cons p ps)
  then show ?case
    by (auto split: option.splits prod.splits)
qed

lemma verifyMerkleProof_error:
  "verifyMerkleProof dg rootHex leafHex path idx = (calls, Inl e)
     \<Longrightarrow> e = RangeError \<or> e = DigestRejected"
  by (auto simp: verifyMerkleProof_def split: prod.splits sum.splits dest: merkleLoop_error)

lemma merkleTasksLoop_error:
  "merkleTasksLoop dg tasks = (calls, Inl e) \<Longrightarrow> e = RangeError \<or> e = DigestRejected"
proof (induction tasks arbitrary: calls)
  case Nil
  then show ?case by simp
next
  case (Cons t ts)
  then show ?case
    by (auto split: prod.splits sum.splits dest: verifyMerkleProof_error)
qed

lemma solveMerkleVerify_error:
  "solveMerkleVerify dg ch = (calls, Inl e)
     \<Longrightarrow> e = RangeError \<or> e = DigestRejected \<or> e = NuwChallengeError INVALID"
  by (auto simp: solveMerkleVerify_def split: option.splits prod.splits sum.splits if_splits
      dest: merkleTasksLoop_error)

lemma nuwSolveChallenge_expired:
  "nuw_expires_at ch < now \<Longrightarrow> nuwSolveChallenge prims now ch = ([], Inl (NuwChallengeError EXPIRED))"
  by (simp add: nuwSolveChallenge_def)

lemma nuwSolveChallenge_not_expired:
  assumes "\<not> nuw_expires_at ch < now"
  shows "snd (nuwSolveChallenge prims now ch) \<noteq> Inl (NuwChallengeError EXPIRED)"
proof (cases "challenge_type ch")
  case ARGON2_POW
  then show ?thesis
    using assms solveArgon2_outcome [of "argon2id prims" ch]
    by (auto simp: nuwSolveChallenge_def)
next
  case SIGNATURE_BATCH
  then show ?thesis
    using assms solveSignatureBatch_outcome [of prims ch]
    by (auto simp: nuwSolveChallenge_def)
next
  case ZK_VERIFY
  then show ?thesis
    using assms solveZkVerify_outcome [of ch]
    by (auto simp: nuwSolveChallenge_def)
next
  case PQ_ASSIST
  then show ?thesis
    using assms solveArgon2_outcome [of "argon2id prims" ch]
    by (auto simp: nuwSolveChallenge_def)
next
  case MERKLE_VERIFY
  then show ?thesis
    using assms solveMerkleVerify_error [of "digest prims" ch _ "NuwChallengeError EXPIRED"]
    by (cases "solveMerkleVerify (digest prims) ch") (auto simp: nuwSolveChallenge_def)
next
  case (OTHER_TYPE t)
  then show ?thesis
    using assms by (simp add: nuwSolveChallenge_def)
qed

lemma solveChallenge_not_expired:
  assumes "\<not> expires_at ch < now"
  shows "snd (solveChallenge prim now ch maxAttempts) \<noteq> Inl (ChallengeError EXPIRED)"
  using assms solveLoop_outcome [of prim ch "hexToBytes (nonce ch)" maxAttempts 0]
  by (auto simp: solveChallenge_def)

text \<open>
  Claim C2, as the code has it. Both \<^verbatim>\<open>ChallengeService.solveChallenge\<close> and the
  dispatcher \<^verbatim>\<open>NuwChallengeService.solveChallenge\<close> test \<^verbatim>\<open>expires_at < now\<close> at
  entry: a challenge with \<open>expires_at < now\<close> throws \<^verbatim>\<open>EXPIRED\<close> with an empty log,
  that is before any hash computation or dispatch; a challenge with \<open>now \<le> expires_at\<close>,
  in particular one whose \<open>expires_at\<close> equals the current second, is never rejected
  as \<^verbatim>\<open>EXPIRED\<close>.
\<close>

theorem expiry_check:
  "(expires_at ch < now \<longrightarrow>
      solveChallenge prim now ch maxAttempts = ([], Inl (ChallengeError EXPIRED)))
   \<and> (now \<le> expires_at ch \<longrightarrow>
      snd (solveChallenge prim now ch maxAttempts) \<noteq> Inl (ChallengeError EXPIRED))
   \<and> (nuw_expires_at nch < now \<longrightarrow>
      nuwSolveChallenge prims now nch = ([], Inl (NuwChallengeError EXPIRED)))
   \<and> (now \<le> nuw_expires_at nch \<longrightarrow>
      snd (nuwSolveChallenge prims now nch) \<noteq> Inl (NuwChallengeError EXPIRED))"
proof (intro conjI impI)
  assume "expires_at ch < now"
  then show "solveChallenge prim now ch maxAttempts = ([], Inl (ChallengeError EXPIRED))"
    by (simp add: solveChallenge_def)
next
  assume "now \<le> expires_at ch"
  then have "\<not> expires_at ch < now" by simp
  then show "snd (solveChallenge prim now ch maxAttempts) \<noteq> Inl (ChallengeError EXPIRED)"
    by (rule solveChallenge_not_expired)
next
  assume "nuw_expires_at nch < now"
  then show "nuwSolveChallenge prims now nch = ([], Inl (NuwChallengeError EXPIRED))"
    by (rule nuwSolveChallenge_expired)
next
  assume "now \<le> nuw_expires_at nch"
  then have "\<not> nuw_expires_at nch < now" by simp
  then show "snd (nuwSolveChallenge prims now nch) \<noteq> Inl (NuwChallengeError EXPIRED)"
    by (rule nuwSolveChallenge_not_expired)
qed

lemma bytesToHex_counter0: "bytesToHex (counterBytesOf 0) = ''0000000000000000''"
proof -
  have "bytesToHex [0,0,0,0,0,0,0,0] = ''0000000000000000''" by code_simp
  then show ?thesis by (simp only: counterBytesOf_small)
qed

lemma example_solve_at_expiry:
  "solveChallenge (argon2id zeroDigestPrims) 2000 exampleChallenge 10000 =
     ([Argon2idCall (powOptions exampleChallenge (hexToBytes zeroDigestHex) 0)],
      Inr \<lparr>solved_challenge_id = ''c-1'', solution = ''0000000000000000'', hash = zeroDigestHex\<rparr>)"
proof -
  have "solveLoop (argon2id zeroDigestPrims) exampleChallenge (hexToBytes zeroDigestHex) 10000 0 =
     ([Argon2idCall (powOptions exampleChallenge (hexToBytes zeroDigestHex) 0)],
      Inr \<lparr>solved_challenge_id = challenge_id exampleChallenge,
           solution = bytesToHex (counterBytesOf 0), hash = zeroDigestHex\<rparr>)"
    by (rule solveLoop_hit [where hashHex = zeroDigestHex])
      (simp_all add: zeroDigestPrims_def exampleChallenge_def zeroDigest_passes)
  then show ?thesis
    unfolding bytesToHex_counter0
    by (simp add: solveChallenge_def exampleChallenge_def zeroDigestHex_length)
qed

lemma example_nuw_solve:
  assumes "argon2_params nch = Some exampleParams"
  shows "solveArgon2 (argon2id zeroDigestPrims) nch =
     ([Argon2idCall (nuwOptions exampleParams 0)],
      Inr \<lparr>solution_challenge_id = nuw_challenge_id nch, solution_challenge_type = ARGON2_POW,
           argon2_solution = Some ''0000000000000000'',
           signature_results = None, zk_result = None, merkle_results = None\<rparr>)"
proof -
  have "argon2Loop (argon2id zeroDigestPrims) nch exampleParams 10000 0 =
     ([Argon2idCall (nuwOptions exampleParams 0)],
      Inr \<lparr>solution_challenge_id = nuw_challenge_id nch, solution_challenge_type = ARGON2_POW,
           argon2_solution = Some (bytesToHex (counterBytesOf 0)),
           signature_results = None, zk_result = None, merkle_results = None\<rparr>)"
    by (rule argon2Loop_hit [where hashHex = zeroDigestHex])
      (simp_all add: zeroDigestPrims_def exampleParams_def zeroDigest_passes)
  then show ?thesis
    unfolding bytesToHex_counter0 using assms by (simp add: solveArgon2_def)
qed

text \<open>Claim C2 as stated fails at \<open>expires_at = now\<close>: both solvers go on to call
  Argon2id and return a solution instead of throwing \<^verbatim>\<open>EXPIRED\<close>.\<close>

theorem expiry_equal_counterexample:
  "expires_at exampleChallenge = 2000
   \<and> solveChallenge (argon2id zeroDigestPrims) 2000 exampleChallenge 10000 =
       ([Argon2idCall (powOptions exampleChallenge (hexToBytes zeroDigestHex) 0)],
        Inr \<lparr>solved_challenge_id = ''c-1'', solution = ''0000000000000000'',
             hash = zeroDigestHex\<rparr>)
   \<and> nuw_expires_at ((bareChallenge ARGON2_POW)\<lparr>argon2_params := Some exampleParams\<rparr>) = 2000
   \<and> nuwSolveChallenge zeroDigestPrims 2000
         ((bareChallenge ARGON2_POW)\<lparr>argon2_params := Some exampleParams\<rparr>) =
       ([Argon2idCall (nuwOptions exampleParams 0)],
        Inr \<lparr>solution_challenge_id = ''n-1'', solution_challenge_type = ARGON2_POW,
             argon2_solution = Some ''0000000000000000'',
             signature_results = None, zk_result = None, merkle_results = None\<rparr>)"
proof -
  have "solveArgon2 (argon2id zeroDigestPrims)
          ((bareChallenge ARGON2_POW)\<lparr>argon2_params := Some exampleParams\<rparr>) =
       ([Argon2idCall (nuwOptions exampleParams 0)],
        Inr \<lparr>solution_challenge_id =
               nuw_challenge_id ((bareChallenge ARGON2_POW)\<lparr>argon2_params := Some exampleParams\<rparr>),
             solution_challenge_type = ARGON2_POW,
             argon2_solution = Some ''0000000000000000'',
             signature_results = None, zk_result = None, merkle_results = None\<rparr>)"
    by (rule example_nuw_solve) simp
  moreover have "expires_at exampleChallenge = 2000" by (simp add: exampleChallenge_def)
  ultimately show ?thesis
    by (simp add: example_solve_at_expiry nuwSolveChallenge_def bareChallenge_def)
qed

theorem expiry_check_witness:
  "expires_at exampleChallenge < 2001
   \<and> solveChallenge (argon2id zeroDigestPrims) 2001 exampleChallenge 10000 =
       ([], Inl (ChallengeError EXPIRED))
   \<and> 2000 \<le> expires_at exampleChallenge
   \<and> snd (solveChallenge (argon2id zeroDigestPrims) 2000 exampleChallenge 10000) \<noteq>
       Inl (ChallengeError EXPIRED)
   \<and> nuw_expires_at (bareChallenge ZK_VERIFY) < 2001
   \<and> nuwSolveChallenge zeroDigestPrims 2001 (bareChallenge ZK_VERIFY) =
       ([], Inl (NuwChallengeError EXPIRED))
   \<and> 2000 \<le> nuw_expires_at (bareChallenge ZK_VERIFY)
   \<and> snd (nuwSolveChallenge zeroDigestPrims 2000 (bareChallenge ZK_VERIFY)) \<noteq>
       Inl (NuwChallengeError EXPIRED)"
  using expiry_check [of exampleChallenge 2001 "argon2id zeroDigestPrims" 10000
      "bareChallenge ZK_VERIFY" zeroDigestPrims]
    expiry_check [of exampleChallenge 2000 "argon2id zeroDigestPrims" 10000
      "bareChallenge ZK_VERIFY" zeroDigestPrims]
  by (simp add: exampleChallenge_def bareChallenge_def)

section \<open>Malformed nonces and failing primitives\<close>

lemma solveChallenge_bad_nonce:
  assumes "\<not> expires_at ch < now" and "length (hexToBytes (nonce ch)) \<noteq> 32"
  shows "solveChallenge prim now ch maxAttempts = ([], Inl (ChallengeError INVALID))"
  using assms by (simp add: solveChallenge_def)

lemma solveArgon2_never_invalid:
  assumes "argon2_params nch = Some ps"
  shows "snd (solveArgon2 prim nch) \<noteq> Inl (NuwChallengeError INVALID)"
    and "fst (solveArgon2 prim nch) \<noteq> []"
proof -
  show "snd (solveArgon2 prim nch) \<noteq> Inl (NuwChallengeError INVALID)"
    using assms argon2Loop_outcome [of prim nch ps 10000 0]
    by (auto simp: solveArgon2_def)
  show "fst (solveArgon2 prim nch) \<noteq> []"
    using assms argon2Loop_calls [of 0 10000 prim nch ps]
    by (simp add: solveArgon2_def)
qed

lemma shortNonce_length: "length (hexToBytes (params_nonce shortNonceParams)) = 16"
  by (simp add: hexToBytes_def shortNonceParams_def)

text \<open>
  Claim C6. A nonce that does not decode to exactly 32 bytes should make every
  proof-of-work solve fail with \<^verbatim>\<open>INVALID\<close> before any Argon2id call.
  \<^verbatim>\<open>ChallengeService.solveChallenge\<close> does so (\<open>solveChallenge_bad_nonce\<close>), but
  \<^verbatim>\<open>NuwChallengeService.solveArgon2\<close> has no length check: on a 16-byte nonce the
  dispatcher calls Argon2id with that salt and returns a solution, for
  \<^verbatim>\<open>ARGON2_POW\<close> and for \<^verbatim>\<open>PQ_ASSIST\<close>; whatever the primitives do, the outcome
  is not \<^verbatim>\<open>INVALID\<close> and the log is not empty.
\<close>

theorem nuw_short_nonce_is_hashed:
  "length (hexToBytes (params_nonce shortNonceParams)) = 16
   \<and> nuwSolveChallenge zeroDigestPrims 1000
         ((bareChallenge ARGON2_POW)\<lparr>argon2_params := Some shortNonceParams\<rparr>) =
       ([Argon2idCall (nuwOptions shortNonceParams 0)],
        Inr \<lparr>solution_challenge_id = ''n-1'', solution_challenge_type = ARGON2_POW,
             argon2_solution = Some ''0000000000000000'',
             signature_results = None, zk_result = None, merkle_results = None\<rparr>)
   \<and> nuwSolveChallenge zeroDigestPrims 1000
         ((bareChallenge PQ_ASSIST)\<lparr>argon2_params := Some shortNonceParams\<rparr>) =
       ([Argon2idCall (nuwOptions shortNonceParams 0)],
        Inr \<lparr>solution_challenge_id = ''n-1'', solution_challenge_type = ARGON2_POW,
             argon2_solution = Some ''0000000000000000'',
             signature_results = None, zk_result = None, merkle_results = None\<rparr>)
   \<and> snd (nuwSolveChallenge prims 1000
         ((bareChallenge ARGON2_POW)\<lparr>argon2_params := Some shortNonceParams\<rparr>))
        \<noteq> Inl (NuwChallengeError INVALID)
   \<and> fst (nuwSolveChallenge prims 1000
         ((bareChallenge ARGON2_POW)\<lparr>argon2_params := Some shortNonceParams\<rparr>)) \<noteq> []"
proof -
  have loop: "\<And>nch. argon2Loop (argon2id zeroDigestPrims) nch shortNonceParams 10000 0 =
     ([Argon2idCall (nuwOptions shortNonceParams 0)],
      Inr \<lparr>solution_challenge_id = nuw_challenge_id nch, solution_challenge_type = ARGON2_POW,
           argon2_solution = Some (bytesToHex (counterBytesOf 0)),
           signature_results = None, zk_result = None, merkle_results = None\<rparr>)"
    by (rule argon2Loop_hit [where hashHex = zeroDigestHex])
      (simp_all add: zeroDigestPrims_def shortNonceParams_def zeroDigest_passes)
  have a: "nuwSolveChallenge zeroDigestPrims 1000
         ((bareChallenge ARGON2_POW)\<lparr>argon2_params := Some shortNonceParams\<rparr>) =
       ([Argon2idCall (nuwOptions shortNonceParams 0)],
        Inr \<lparr>solution_challenge_id = ''n-1'', solution_challenge_type = ARGON2_POW,
             argon2_solution = Some ''0000000000000000'',
             signature_results = None, zk_result = None, merkle_results = None\<rparr>)"
    by (simp add: nuwSolveChallenge_def solveArgon2_def bareChallenge_def loop bytesToHex_counter0)
  have b: "nuwSolveChallenge zeroDigestPrims 1000
         ((bareChallenge PQ_ASSIST)\<lparr>argon2_params := Some shortNonceParams\<rparr>) =
       ([Argon2idCall (nuwOptions shortNonceParams 0)],
        Inr \<lparr>solution_challenge_id = ''n-1'', solution_challenge_type = ARGON2_POW,
             argon2_solution = Some ''0000000000000000'',
             signature_results = None, zk_result = None, merkle_results = None\<rparr>)"
    by (simp add: nuwSolveChallenge_def solveArgon2_def bareChallenge_def loop bytesToHex_counter0)
  have p: "argon2_params ((bareChallenge ARGON2_POW)\<lparr>argon2_params := Some shortNonceParams\<rparr>)
             = Some shortNonceParams" by simp
  have c: "snd (nuwSolveChallenge prims 1000
         ((bareChallenge ARGON2_POW)\<lparr>argon2_params := Some shortNonceParams\<rparr>))
        \<noteq> Inl (NuwChallengeError INVALID)"
    using solveArgon2_never_invalid(1) [OF p, of "argon2id prims"]
    by (simp add: nuwSolveChallenge_def bareChallenge_def)
  have d: "fst (nuwSolveChallenge prims 1000
         ((bareChallenge ARGON2_POW)\<lparr>argon2_params := Some shortNonceParams\<rparr>)) \<noteq> []"
    using solveArgon2_never_invalid(2) [OF p, of "argon2id prims"]
    by (simp add: nuwSolveChallenge_def bareChallenge_def)
  show ?thesis using shortNonce_length a b c d by blast
qed

text \<open>Claim C7 as stated fails on the dispatcher's path: when Argon2id throws there,
  the code thrown is \<^verbatim>\<open>SOLVE_FAILED\<close>, not \<^verbatim>\<open>WASM_FAILED\<close>.\<close>

theorem nuw_primitive_error_counterexample:
  "argon2id failingPrims (nuwOptions exampleParams 0) = None
   \<and> nuwSolveChallenge failingPrims 1000
         ((bareChallenge ARGON2_POW)\<lparr>argon2_params := Some exampleParams\<rparr>) =
       ([Argon2idCall (nuwOptions exampleParams 0)], Inl (NuwChallengeError SOLVE_FAILED))
   \<and> NuwChallengeError SOLVE_FAILED \<noteq> NuwChallengeError WASM_FAILED"
proof -
  have "\<And>nch. argon2Loop (argon2id failingPrims) nch exampleParams 10000 0 =
     ([Argon2idCall (nuwOptions exampleParams 0)], Inl (NuwChallengeError SOLVE_FAILED))"
    by (rule argon2Loop_throw) (simp_all add: failingPrims_def)
  then show ?thesis
    by (simp add: nuwSolveChallenge_def solveArgon2_def bareChallenge_def failingPrims_def)
qed

text \<open>
  Claim C7, as the code has it. When Argon2id throws at the first counter that does not
  miss, \<^verbatim>\<open>ChallengeService.solveChallenge\<close> throws \<^verbatim>\<open>WASM_FAILED\<close>, a code
  distinct from \<^verbatim>\<open>SOLVE_FAILED\<close>; the dispatcher's \<^verbatim>\<open>ARGON2_POW\<close> path (and the
  \<^verbatim>\<open>PQ_ASSIST\<close> fallback) throws \<^verbatim>\<open>SOLVE_FAILED\<close>, the code it also uses when
  the attempts are exhausted: \<^verbatim>\<open>NuwChallengeError\<close> has no \<^verbatim>\<open>WASM_FAILED\<close> code.
\<close>

theorem primitive_error_codes:
  "(now \<le> expires_at ch \<and> length (hexToBytes (nonce ch)) = 32 \<and> c < maxAttempts
      \<and> (\<forall>k<c. \<exists>h. prim (powOptions ch (hexToBytes (nonce ch)) k) = Some h
                  \<and> \<not> hasLeadingZeros (hexToBytes h) (difficulty ch))
      \<and> prim (powOptions ch (hexToBytes (nonce ch)) c) = None
      \<longrightarrow> snd (solveChallenge prim now ch maxAttempts) = Inl (ChallengeError WASM_FAILED))
   \<and> WASM_FAILED \<noteq> SOLVE_FAILED
   \<and> (now \<le> nuw_expires_at nch
      \<and> (challenge_type nch = ARGON2_POW \<or> challenge_type nch = PQ_ASSIST)
      \<and> argon2_params nch = Some ps \<and> c' < 10000
      \<and> (\<forall>k<c'. \<exists>h. argon2id prims (nuwOptions ps k) = Some h
                  \<and> \<not> hasLeadingZeros (hexToBytes h) (params_difficulty ps))
      \<and> argon2id prims (nuwOptions ps c') = None
      \<longrightarrow> snd (nuwSolveChallenge prims now nch) = Inl (NuwChallengeError SOLVE_FAILED))"
proof (intro conjI impI)
  assume h: "now \<le> expires_at ch \<and> length (hexToBytes (nonce ch)) = 32 \<and> c < maxAttempts
      \<and> (\<forall>k<c. \<exists>h. prim (powOptions ch (hexToBytes (nonce ch)) k) = Some h
                  \<and> \<not> hasLeadingZeros (hexToBytes h) (difficulty ch))
      \<and> prim (powOptions ch (hexToBytes (nonce ch)) c) = None"
  then have "solveLoop prim ch (hexToBytes (nonce ch)) maxAttempts 0 =
           (map (\<lambda>k. Argon2idCall (powOptions ch (hexToBytes (nonce ch)) k)) [0..<Suc c],
            Inl (ChallengeError WASM_FAILED))"
    by (intro solveLoop_first_throw) blast+
  with h show "snd (solveChallenge prim now ch maxAttempts) = Inl (ChallengeError WASM_FAILED)"
    by (simp add: solveChallenge_def)
next
  show "WASM_FAILED \<noteq> SOLVE_FAILED" by simp
next
  assume h: "now \<le> nuw_expires_at nch
      \<and> (challenge_type nch = ARGON2_POW \<or> challenge_type nch = PQ_ASSIST)
      \<and> argon2_params nch = Some ps \<and> c' < 10000
      \<and> (\<forall>k<c'. \<exists>h. argon2id prims (nuwOptions ps k) = Some h
                  \<and> \<not> hasLeadingZeros (hexToBytes h) (params_difficulty ps))
      \<and> argon2id prims (nuwOptions ps c') = None"
  then have "argon2Loop (argon2id prims) nch ps 10000 0 =
           (map (\<lambda>k. Argon2idCall (nuwOptions ps k)) [0..<Suc c'],
            Inl (NuwChallengeError SOLVE_FAILED))"
    by (intro argon2Loop_first_throw) blast+
  with h show "snd (nuwSolveChallenge prims now nch) = Inl (NuwChallengeError SOLVE_FAILED)"
    by (auto simp: nuwSolveChallenge_def solveArgon2_def)
qed

theorem primitive_error_codes_witness:
  "(1000::int) \<le> expires_at exampleChallenge
   \<and> length (hexToBytes (nonce exampleChallenge)) = 32
   \<and> failingArgon2 (powOptions exampleChallenge (hexToBytes (nonce exampleChallenge)) 0) = None
   \<and> snd (solveChallenge failingArgon2 1000 exampleChallenge 10000) =
       Inl (ChallengeError WASM_FAILED)
   \<and> argon2_params ((bareChallenge PQ_ASSIST)\<lparr>argon2_params := Some exampleParams\<rparr>) =
       Some exampleParams
   \<and> argon2id failingPrims (nuwOptions exampleParams 0) = None
   \<and> snd (nuwSolveChallenge failingPrims 1000
         ((bareChallenge PQ_ASSIST)\<lparr>argon2_params := Some exampleParams\<rparr>)) =
       Inl (NuwChallengeError SOLVE_FAILED)"
proof -
  have e: "(1000::int) \<le> expires_at exampleChallenge" by (simp add: exampleChallenge_def)
  have n: "length (hexToBytes (nonce exampleChallenge)) = 32"
    by (simp add: exampleChallenge_def zeroDigestHex_length)
  have f: "failingArgon2 (powOptions exampleChallenge (hexToBytes (nonce exampleChallenge)) 0) = None"
    by (simp add: failingArgon2_def)
  have g: "argon2id failingPrims (nuwOptions exampleParams 0) = None"
    by (simp add: failingPrims_def)
  have t: "challenge_type ((bareChallenge PQ_ASSIST)\<lparr>argon2_params := Some exampleParams\<rparr>) = PQ_ASSIST"
    "(1000::int) \<le> nuw_expires_at ((bareChallenge PQ_ASSIST)\<lparr>argon2_params := Some exampleParams\<rparr>)"
    "argon2_params ((bareChallenge PQ_ASSIST)\<lparr>argon2_params := Some exampleParams\<rparr>) = Some exampleParams"
    by (simp_all add: bareChallenge_def)
  show ?thesis
    using primitive_error_codes [of 1000 exampleChallenge 0 10000 failingArgon2
        "(bareChallenge PQ_ASSIST)\<lparr>argon2_params := Some exampleParams\<rparr>" exampleParams 0
        failingPrims] e n f g t
    by simp
qed

section \<open>The dispatcher: missing payloads, the ZK placeholder, the PQ fallback\<close>

text \<open>
  Claim C8. For a \<^verbatim>\<open>NuwChallenge\<close> that has not expired, when the payload its type is
  solved from is absent (\<^verbatim>\<open>argon2_params\<close> for \<^verbatim>\<open>ARGON2_POW\<close> and for the
  \<^verbatim>\<open>PQ_ASSIST\<close> fallback, \<^verbatim>\<open>signature_batch\<close>, \<^verbatim>\<open>zk_proof\<close>,
  \<^verbatim>\<open>merkle_proofs\<close>), or is an empty list for \<^verbatim>\<open>SIGNATURE_BATCH\<close> and
  \<^verbatim>\<open>MERKLE_VERIFY\<close>, the dispatcher throws \<^verbatim>\<open>INVALID\<close> with an empty log: no
  primitive has been called.
\<close>

theorem missing_payload_invalid:
  assumes "now \<le> nuw_expires_at nch"
    and "(challenge_type nch = ARGON2_POW \<and> argon2_params nch = None)
         \<or> (challenge_type nch = PQ_ASSIST \<and> argon2_params nch = None)
         \<or> (challenge_type nch = SIGNATURE_BATCH
              \<and> (signature_batch nch = None \<or> signature_batch nch = Some []))
         \<or> (challenge_type nch = ZK_VERIFY \<and> zk_proof nch = None)
         \<or> (challenge_type nch = MERKLE_VERIFY
              \<and> (merkle_proofs nch = None \<or> merkle_proofs nch = Some []))"
  shows "nuwSolveChallenge prims now nch = ([], Inl (NuwChallengeError INVALID))"
proof -
  have ne: "\<not> nuw_expires_at nch < now" using assms(1) by simp
  from assms(2) show ?thesis
    unfolding nuwSolveChallenge_def using ne
    by (auto simp: solveArgon2_def solveSignatureBatch_def solveZkVerify_def
        solveMerkleVerify_def)
qed

theorem missing_payload_invalid_witness:
  "(1000::int) \<le> nuw_expires_at (bareChallenge SIGNATURE_BATCH)
   \<and> challenge_type (bareChallenge SIGNATURE_BATCH) = SIGNATURE_BATCH
   \<and> signature_batch (bareChallenge SIGNATURE_BATCH) = None
   \<and> nuwSolveChallenge toyEd25519Prims 1000 (bareChallenge SIGNATURE_BATCH) =
       ([], Inl (NuwChallengeError INVALID))
   \<and> merkle_proofs ((bareChallenge MERKLE_VERIFY)\<lparr>merkle_proofs := Some []\<rparr>) = Some []
   \<and> nuwSolveChallenge toyEd25519Prims 1000
         ((bareChallenge MERKLE_VERIFY)\<lparr>merkle_proofs := Some []\<rparr>) =
       ([], Inl (NuwChallengeError INVALID))"
  using missing_payload_invalid [of 1000 "bareChallenge SIGNATURE_BATCH" toyEd25519Prims]
    missing_payload_invalid [of 1000 "(bareChallenge MERKLE_VERIFY)\<lparr>merkle_proofs := Some []\<rparr>"
      toyEd25519Prims]
  by (simp add: bareChallenge_def)

text \<open>
  Claim C9. For an unexpired \<^verbatim>\<open>ZK_VERIFY\<close> challenge that carries a
  \<^verbatim>\<open>zk_proof\<close>, the dispatcher returns a solution whose \<^verbatim>\<open>zk_result\<close> is the
  task's \<^verbatim>\<open>proof_id\<close> with \<^verbatim>\<open>valid: true\<close>, whatever the proof contains and
  whatever the primitives do; the log is empty, so nothing was verified.
\<close>

theorem zk_verify_placeholder:
  assumes "now \<le> nuw_expires_at nch"
    and "challenge_type nch = ZK_VERIFY"
    and "zk_proof nch = Some task"
  shows "nuwSolveChallenge prims now nch =
           ([],
            Inr \<lparr>solution_challenge_id = nuw_challenge_id nch,
                 solution_challenge_type = ZK_VERIFY,
                 argon2_solution = None, signature_results = None,
                 zk_result = Some \<lparr>result_proof_id = proof_id task, zk_valid = True\<rparr>,
                 merkle_results = None\<rparr>)"
  using assms by (simp add: nuwSolveChallenge_def solveZkVerify_def)

theorem zk_verify_placeholder_witness:
  "(1000::int) \<le> nuw_expires_at ((bareChallenge ZK_VERIFY)\<lparr>zk_proof := Some exampleZkTask\<rparr>)
   \<and> challenge_type ((bareChallenge ZK_VERIFY)\<lparr>zk_proof := Some exampleZkTask\<rparr>) = ZK_VERIFY
   \<and> zk_proof ((bareChallenge ZK_VERIFY)\<lparr>zk_proof := Some exampleZkTask\<rparr>) = Some exampleZkTask
   \<and> nuwSolveChallenge failingPrims 1000
         ((bareChallenge ZK_VERIFY)\<lparr>zk_proof := Some exampleZkTask\<rparr>) =
       ([],
        Inr \<lparr>solution_challenge_id = ''n-1'', solution_challenge_type = ZK_VERIFY,
             argon2_solution = None, signature_results = None,
             zk_result = Some \<lparr>result_proof_id = ''p-1'', zk_valid = True\<rparr>,
             merkle_results = None\<rparr>)"
  using zk_verify_placeholder [of 1000 "(bareChallenge ZK_VERIFY)\<lparr>zk_proof := Some exampleZkTask\<rparr>"
      exampleZkTask failingPrims]
  by (simp add: bareChallenge_def exampleZkTask_def)

text \<open>
  Claim C10. Every solution the dispatcher returns for a \<^verbatim>\<open>PQ_ASSIST\<close> challenge has
  \<^verbatim>\<open>challenge_type\<close> \<^verbatim>\<open>ARGON2_POW\<close>, which differs from the challenge's type, and
  \<^verbatim>\<open>argon2_solution\<close> as its only result payload.
\<close>

theorem pq_assist_solution_type:
  assumes "challenge_type nch = PQ_ASSIST"
    and "nuwSolveChallenge prims now nch = (calls, Inr sol)"
  shows "solution_challenge_type sol = ARGON2_POW
         \<and> solution_challenge_type sol \<noteq> challenge_type nch
         \<and> argon2_solution sol \<noteq> None
         \<and> signature_results sol = None \<and> zk_result sol = None \<and> merkle_results sol = None"
proof -
  have ne: "\<not> nuw_expires_at nch < now"
    using assms(2) by (auto simp: nuwSolveChallenge_def)
  then have "snd (solveArgon2 (argon2id prims) nch) = Inr sol"
    using assms by (simp add: nuwSolveChallenge_def)
  with solveArgon2_outcome [of "argon2id prims" nch] assms(1) show ?thesis
    by auto
qed

theorem pq_assist_solution_type_witness:
  "challenge_type ((bareChallenge PQ_ASSIST)\<lparr>argon2_params := Some exampleParams\<rparr>) = PQ_ASSIST
   \<and> nuwSolveChallenge zeroDigestPrims 1000
         ((bareChallenge PQ_ASSIST)\<lparr>argon2_params := Some exampleParams\<rparr>) =
       ([Argon2idCall (nuwOptions exampleParams 0)],
        Inr \<lparr>solution_challenge_id = ''n-1'', solution_challenge_type = ARGON2_POW,
             argon2_solution = Some ''0000000000000000'',
             signature_results = None, zk_result = None, merkle_results = None\<rparr>)
   \<and> solution_challenge_type
         \<lparr>solution_challenge_id = ''n-1'', solution_challenge_type = ARGON2_POW,
          argon2_solution = Some ''0000000000000000'',
          signature_results = None, zk_result = None, merkle_results = None\<rparr>
       \<noteq> challenge_type ((bareChallenge PQ_ASSIST)\<lparr>argon2_params := Some exampleParams\<rparr>)"
proof -
  have t: "challenge_type ((bareChallenge PQ_ASSIST)\<lparr>argon2_params := Some exampleParams\<rparr>) = PQ_ASSIST"
    by (simp add: bareChallenge_def)
  have "solveArgon2 (argon2id zeroDigestPrims)
          ((bareChallenge PQ_ASSIST)\<lparr>argon2_params := Some exampleParams\<rparr>) =
       ([Argon2idCall (nuwOptions exampleParams 0)],
        Inr \<lparr>solution_challenge_id =
               nuw_challenge_id ((bareChallenge PQ_ASSIST)\<lparr>argon2_params := Some exampleParams\<rparr>),
             solution_challenge_type = ARGON2_POW,
             argon2_solution = Some ''0000000000000000'',
             signature_results = None, zk_result = None, merkle_results = None\<rparr>)"
    by (rule example_nuw_solve) simp
  then have r: "nuwSolveChallenge zeroDigestPrims 1000
         ((bareChallenge PQ_ASSIST)\<lparr>argon2_params := Some exampleParams\<rparr>) =
       ([Argon2idCall (nuwOptions exampleParams 0)],
        Inr \<lparr>solution_challenge_id = ''n-1'', solution_challenge_type = ARGON2_POW,
             argon2_solution = Some ''0000000000000000'',
             signature_results = None, zk_result = None, merkle_results = None\<rparr>)"
    by (simp add: nuwSolveChallenge_def bareChallenge_def)
  from pq_assist_solution_type [OF t r] t r show ?thesis by simp
qed

section \<open>Signature batches\<close>

lemma verifySignature_valid:
  "snd (verifySignature prims m s pk alg) \<longleftrightarrow>
     alg = ''ed25519''
     \<and> (\<exists>key. importKey prims pk = Some key \<and> verify prims key s m = Some True)"
  by (auto simp: verifySignature_def split: option.splits)

lemma signatureLoop_results:
  "snd (signatureLoop prims sigs) =
     map (\<lambda>sig. \<lparr>result_tx_id = tx_id sig,
                  signature_valid =
                    snd (verifySignature prims (hexToBytes (message sig))
                           (hexToBytes (signature sig)) (hexToBytes (public_key sig))
                           (algorithm sig))\<rparr>) sigs"
  by (induction sigs) (auto split: prod.splits)

text \<open>
  Claim C5. For a non-empty \<^verbatim>\<open>signature_batch\<close>, \<^verbatim>\<open>solveSignatureBatch\<close> returns (it
  does not throw) a solution with exactly one \<^verbatim>\<open>{tx_id, valid}\<close> per item, in input
  order. An item is valid exactly when its algorithm is \<^verbatim>\<open>ed25519\<close>, the key import
  succeeded and the verification returned true; so an item whose algorithm is
  \<^verbatim>\<open>dilithium2\<close>, whose key import fails (the primitive is unavailable) or whose
  verification throws contributes \<^verbatim>\<open>valid: false\<close>, and the other items are still
  processed.
\<close>

theorem solveSignatureBatch_results:
  assumes "signature_batch nch = Some sigs" and "sigs \<noteq> []"
  shows "\<exists>calls results.
           solveSignatureBatch prims nch =
             (calls,
              Inr \<lparr>solution_challenge_id = nuw_challenge_id nch,
                   solution_challenge_type = SIGNATURE_BATCH,
                   argon2_solution = None, signature_results = Some results,
                   zk_result = None, merkle_results = None\<rparr>)
           \<and> length results = length sigs
           \<and> (\<forall>i<length sigs.
                 result_tx_id (results ! i) = tx_id (sigs ! i)
                 \<and> (signature_valid (results ! i) \<longleftrightarrow>
                      algorithm (sigs ! i) = ''ed25519''
                      \<and> (\<exists>key. importKey prims (hexToBytes (public_key (sigs ! i))) = Some key
                            \<and> verify prims key (hexToBytes (signature (sigs ! i)))
                                 (hexToBytes (message (sigs ! i))) = Some True))
                 \<and> (algorithm (sigs ! i) = ''dilithium2'' \<longrightarrow> \<not> signature_valid (results ! i))
                 \<and> (importKey prims (hexToBytes (public_key (sigs ! i))) = None
                      \<longrightarrow> \<not> signature_valid (results ! i))
                 \<and> (\<forall>key. importKey prims (hexToBytes (public_key (sigs ! i))) = Some key
                        \<and> verify prims key (hexToBytes (signature (sigs ! i)))
                             (hexToBytes (message (sigs ! i))) = None
                      \<longrightarrow> \<not> signature_valid (results ! i)))"
proof -
  obtain calls results where l: "signatureLoop prims sigs = (calls, results)"
    by (cases "signatureLoop prims sigs")
  have r: "results =
     map (\<lambda>sig. \<lparr>result_tx_id = tx_id sig,
                  signature_valid =
                    snd (verifySignature prims (hexToBytes (message sig))
                           (hexToBytes (signature sig)) (hexToBytes (public_key sig))
                           (algorithm sig))\<rparr>) sigs"
    using signatureLoop_results [of prims sigs] l by simp
  have s: "solveSignatureBatch prims nch =
             (calls,
              Inr \<lparr>solution_challenge_id = nuw_challenge_id nch,
                   solution_challenge_type = SIGNATURE_BATCH,
                   argon2_solution = None, signature_results = Some results,
                   zk_result = None, merkle_results = None\<rparr>)"
    using assms l by (simp add: solveSignatureBatch_def)
  have len: "length results = length sigs" by (simp add: r)
  have each: "\<forall>i<length sigs.
                 result_tx_id (results ! i) = tx_id (sigs ! i)
                 \<and> (signature_valid (results ! i) \<longleftrightarrow>
                      algorithm (sigs ! i) = ''ed25519''
                      \<and> (\<exists>key. importKey prims (hexToBytes (public_key (sigs ! i))) = Some key
                            \<and> verify prims key (hexToBytes (signature (sigs ! i)))
                                 (hexToBytes (message (sigs ! i))) = Some True))"
    by (simp add: r verifySignature_valid)
  have rest: "\<forall>i<length sigs.
                   (algorithm (sigs ! i) = ''dilithium2'' \<longrightarrow> \<not> signature_valid (results ! i))
                 \<and> (importKey prims (hexToBytes (public_key (sigs ! i))) = None
                      \<longrightarrow> \<not> signature_valid (results ! i))
                 \<and> (\<forall>key. importKey prims (hexToBytes (public_key (sigs ! i))) = Some key
                        \<and> verify prims key (hexToBytes (signature (sigs ! i)))
                             (hexToBytes (message (sigs ! i))) = None
                      \<longrightarrow> \<not> signature_valid (results ! i))"
    using each by auto
  from s len each rest show ?thesis by blast
qed

lemma exampleBatch_run:
  "solveSignatureBatch toyEd25519Prims
      ((bareChallenge SIGNATURE_BATCH)\<lparr>signature_batch := Some exampleBatch\<rparr>) =
     ([ImportKeyCall [10], VerifyCall [10, 1] [1], ImportKeyCall [10], VerifyCall [255, 1] [1]],
      Inr \<lparr>solution_challenge_id = ''n-1'', solution_challenge_type = SIGNATURE_BATCH,
           argon2_solution = None,
           signature_results =
             Some [\<lparr>result_tx_id = ''A'', signature_valid = True\<rparr>,
                   \<lparr>result_tx_id = ''B'', signature_valid = False\<rparr>,
                   \<lparr>result_tx_id = ''C'', signature_valid = False\<rparr>],
           zk_result = None, merkle_results = None\<rparr>)"
  by code_simp

theorem solveSignatureBatch_results_witness:
  "signature_batch ((bareChallenge SIGNATURE_BATCH)\<lparr>signature_batch := Some exampleBatch\<rparr>)
     = Some exampleBatch
   \<and> exampleBatch \<noteq> []
   \<and> snd (solveSignatureBatch toyEd25519Prims
         ((bareChallenge SIGNATURE_BATCH)\<lparr>signature_batch := Some exampleBatch\<rparr>)) =
       Inr \<lparr>solution_challenge_id = ''n-1'', solution_challenge_type = SIGNATURE_BATCH,
            argon2_solution = None,
            signature_results =
              Some [\<lparr>result_tx_id = ''A'', signature_valid = True\<rparr>,
                    \<lparr>result_tx_id = ''B'', signature_valid = False\<rparr>,
                    \<lparr>result_tx_id = ''C'', signature_valid = False\<rparr>],
            zk_result = None, merkle_results = None\<rparr>
   \<and> (\<exists>calls results.
         solveSignatureBatch toyEd25519Prims
           ((bareChallenge SIGNATURE_BATCH)\<lparr>signature_batch := Some exampleBatch\<rparr>) =
           (calls,
            Inr \<lparr>solution_challenge_id = ''n-1'', solution_challenge_type = SIGNATURE_BATCH,
                 argon2_solution = None, signature_results = Some results,
                 zk_result = None, merkle_results = None\<rparr>)
         \<and> length results = 3
         \<and> (\<forall>i<3. result_tx_id (results ! i) = tx_id (exampleBatch ! i)))"
proof -
  have a: "signature_batch ((bareChallenge SIGNATURE_BATCH)\<lparr>signature_batch := Some exampleBatch\<rparr>)
             = Some exampleBatch" by simp
  have b: "exampleBatch \<noteq> []" by (simp add: exampleBatch_def)
  have n: "length exampleBatch = 3" by (simp add: exampleBatch_def)
  have i: "nuw_challenge_id ((bareChallenge SIGNATURE_BATCH)\<lparr>signature_batch := Some exampleBatch\<rparr>)
             = ''n-1''" by (simp add: bareChallenge_def)
  from solveSignatureBatch_results [OF a b, of toyEd25519Prims]
  obtain calls results where
    r: "solveSignatureBatch toyEd25519Prims
           ((bareChallenge SIGNATURE_BATCH)\<lparr>signature_batch := Some exampleBatch\<rparr>) =
           (calls,
            Inr \<lparr>solution_challenge_id = ''n-1'', solution_challenge_type = SIGNATURE_BATCH,
                 argon2_solution = None, signature_results = Some results,
                 zk_result = None, merkle_results = None\<rparr>)"
    and l: "length results = 3"
    and t: "\<forall>i<3. result_tx_id (results ! i) = tx_id (exampleBatch ! i)"
    unfolding n i by blast
  have e: "\<exists>calls results.
         solveSignatureBatch toyEd25519Prims
           ((bareChallenge SIGNATURE_BATCH)\<lparr>signature_batch := Some exampleBatch\<rparr>) =
           (calls,
            Inr \<lparr>solution_challenge_id = ''n-1'', solution_challenge_type = SIGNATURE_BATCH,
                 argon2_solution = None, signature_results = Some results,
                 zk_result = None, merkle_results = None\<rparr>)
         \<and> length results = 3
         \<and> (\<forall>i<3. result_tx_id (results ! i) = tx_id (exampleBatch ! i))"
    using r l t by blast
  show ?thesis
    using a b e by (simp add: exampleBatch_run)
qed

section \<open>Merkle proofs\<close>

lemma and_one_bit0: "(x::int) AND 1 \<noteq> 0 \<longleftrightarrow> bit x 0"
  by (simp add: and_one_eq bit_0 odd_iff_mod_2_eq_one)

lemma isRight_bit: "isRight idx i \<longleftrightarrow> bit idx (i mod 32)"
proof -
  have k: "nat (int i mod 32) = i mod 32" by (simp add: nat_mod_distrib)
  have one: "toInt32 1 = 1" by (simp add: toInt32_def)
  have "isRight idx i \<longleftrightarrow> bit (toInt32 (drop_bit (i mod 32) (toInt32 idx))) 0"
    unfolding isRight_def js_and_def js_sar_def k one by (rule and_one_bit0)
  also have "\<dots> \<longleftrightarrow> bit (drop_bit (i mod 32) (toInt32 idx)) 0"
    by (simp add: toInt32_def bit_signed_take_bit_iff)
  also have "\<dots> \<longleftrightarrow> bit (toInt32 idx) (i mod 32)"
    by (simp add: bit_drop_bit_eq)
  also have "\<dots> \<longleftrightarrow> bit idx (i mod 32)"
  proof -
    have "i mod 32 < 32" by simp
    then have "min 31 (i mod 32) = i mod 32" by linarith
    then show ?thesis by (simp add: toInt32_def bit_signed_take_bit_iff)
  qed
  finally show ?thesis .
qed

lemma combine_32:
  assumes "length sibling = 32" and "length current = 32"
  shows "combine True sibling current = Some (sibling @ current)"
    and "combine False sibling current = Some (current @ sibling)"
  using assms by (simp_all add: combine_def typedArraySet_def)

lemma compareWithRoot_eq: "compareWithRoot current rootBytes \<longleftrightarrow> current = rootBytes"
proof (cases "length current = length rootBytes")
  case True
  have "compareWithRoot current rootBytes \<longleftrightarrow> (\<forall>i<length current. current ! i = rootBytes ! i)"
    unfolding compareWithRoot_def list_all_iff using True by auto
  also have "\<dots> \<longleftrightarrow> current = rootBytes"
    using True list_eq_iff_nth_eq [of current rootBytes] by blast
  finally show ?thesis .
next
  case False
  then show ?thesis
    by (auto simp: compareWithRoot_def)
qed

lemma merkleLoop_agrees:
  assumes "\<forall>p \<in> set path. length (hexToBytes p) = 32"
    and "length current = 32"
    and "\<forall>x. length (H x) = 32"
    and "i + length path \<le> 32"
  shows "snd (merkleLoop (\<lambda>x. Some (H x)) idx path i current) =
           Inr (merkleFold_spec H idx (map hexToBytes path) i current)"
  using assms
proof (induction path arbitrary: i current)
  case Nil
  then show ?case by simp
next
  case (Cons p ps)
  have i: "i mod 32 = i" using Cons.prems(4) by simp
  have lp: "length (hexToBytes p) = 32" using Cons.prems(1) by simp
  define next_current where
    "next_current = (if bit idx i then H (hexToBytes p @ current) else H (current @ hexToBytes p))"
  have c: "combine (isRight idx i) (hexToBytes p) current =
             Some (if bit idx i then hexToBytes p @ current else current @ hexToBytes p)"
    using combine_32 [OF lp Cons.prems(2)] by (simp add: isRight_bit i)
  have ih: "snd (merkleLoop (\<lambda>x. Some (H x)) idx ps (Suc i) next_current) =
           Inr (merkleFold_spec H idx (map hexToBytes ps) (Suc i) next_current)"
    using Cons.prems by (intro Cons.IH) (simp_all add: next_current_def)
  show ?case
  proof (cases "bit idx i")
    case True
    then have n: "next_current = H (hexToBytes p @ current)" by (simp add: next_current_def)
    show ?thesis
      using ih True unfolding n
      by (cases "merkleLoop (\<lambda>x. Some (H x)) idx ps (Suc i) (H (hexToBytes p @ current))")
        (simp add: c)
  next
    case False
    then have n: "next_current = H (current @ hexToBytes p)" by (simp add: next_current_def)
    show ?thesis
      using ih False unfolding n
      by (cases "merkleLoop (\<lambda>x. Some (H x)) idx ps (Suc i) (H (current @ hexToBytes p))")
        (simp add: c)
  qed
qed

lemma verifyMerkleProof_agrees:
  assumes "\<forall>p \<in> set path. length (hexToBytes p) = 32"
    and "length (hexToBytes leafHex) = 32"
    and "\<forall>x. length (H x) = 32"
    and "length path \<le> 32"
  shows "snd (verifyMerkleProof (\<lambda>x. Some (H x)) rootHex leafHex path idx) =
           Inr (merkleVerify_spec H (hexToBytes rootHex) (hexToBytes leafHex)
                  (map hexToBytes path) idx)"
proof -
  have "snd (merkleLoop (\<lambda>x. Some (H x)) idx path 0 (hexToBytes leafHex)) =
           Inr (merkleFold_spec H idx (map hexToBytes path) 0 (hexToBytes leafHex))"
    using assms by (intro merkleLoop_agrees) simp_all
  then show ?thesis
    by (auto simp: verifyMerkleProof_def merkleVerify_spec_def compareWithRoot_eq
        split: prod.splits sum.splits)
qed

lemma onesDigestHex_length: "length (hexToBytes onesDigestHex) = 32"
  by (simp add: hexToBytes_def onesDigestHex_def)

lemma zero_ones_differ: "hexToBytes zeroDigestHex \<noteq> hexToBytes onesDigestHex"
proof -
  have "hexToBytes zeroDigestHex ! 0 = 0" by code_simp
  moreover have "hexToBytes onesDigestHex ! 0 = 255" by code_simp
  ultimately show ?thesis by auto
qed

lemma firstHalf_append: "length a = 32 \<Longrightarrow> firstHalf (a @ b) = a"
  by (simp add: firstHalf_def)

lemma merkleLoop_zero_steps:
  "merkleLoop firstHalfDigest idx (replicate n zeroDigestHex @ rest) i (hexToBytes zeroDigestHex) =
     (replicate n (DigestCall (hexToBytes zeroDigestHex @ hexToBytes zeroDigestHex))
        @ fst (merkleLoop firstHalfDigest idx rest (i + n) (hexToBytes zeroDigestHex)),
      snd (merkleLoop firstHalfDigest idx rest (i + n) (hexToBytes zeroDigestHex)))"
proof (induction n arbitrary: i)
  case 0
  then show ?case by simp
next
  case (Suc n)
  have c: "combine (isRight idx i) (hexToBytes zeroDigestHex) (hexToBytes zeroDigestHex) =
             Some (hexToBytes zeroDigestHex @ hexToBytes zeroDigestHex)"
    using combine_32 [OF zeroDigestHex_length zeroDigestHex_length]
    by (cases "isRight idx i") simp_all
  have d: "firstHalfDigest (hexToBytes zeroDigestHex @ hexToBytes zeroDigestHex) =
             Some (hexToBytes zeroDigestHex)"
    by (simp add: firstHalfDigest_def firstHalf_append zeroDigestHex_length)
  show ?case
    by (simp add: c d Suc.IH [of "Suc i"])
qed

lemma merkleLoop_deepPath:
  "merkleLoop firstHalfDigest 1 deepPath 0 (hexToBytes zeroDigestHex) =
     (replicate 32 (DigestCall (hexToBytes zeroDigestHex @ hexToBytes zeroDigestHex))
        @ [DigestCall (hexToBytes onesDigestHex @ hexToBytes zeroDigestHex)],
      Inr (hexToBytes onesDigestHex))"
proof -
  have r: "isRight 1 32" by (simp add: isRight_bit)
  have c: "combine True (hexToBytes onesDigestHex) (hexToBytes zeroDigestHex) =
             Some (hexToBytes onesDigestHex @ hexToBytes zeroDigestHex)"
    by (rule combine_32 [OF onesDigestHex_length zeroDigestHex_length])
  have d: "firstHalfDigest (hexToBytes onesDigestHex @ hexToBytes zeroDigestHex) =
             Some (hexToBytes onesDigestHex)"
    by (simp add: firstHalfDigest_def firstHalf_append onesDigestHex_length)
  have last_step: "merkleLoop firstHalfDigest 1 [onesDigestHex] 32 (hexToBytes zeroDigestHex) =
     ([DigestCall (hexToBytes onesDigestHex @ hexToBytes zeroDigestHex)],
      Inr (hexToBytes onesDigestHex))"
    by (simp add: r c d)
  show ?thesis
    unfolding deepPath_def
    by (subst merkleLoop_zero_steps) (simp only: add_0 last_step fst_conv snd_conv)
qed

lemma merkleFold_spec_zero_steps:
  "merkleFold_spec firstHalf idx (replicate n (hexToBytes zeroDigestHex) @ rest) i
       (hexToBytes zeroDigestHex) =
     merkleFold_spec firstHalf idx rest (i + n) (hexToBytes zeroDigestHex)"
  by (induction n arbitrary: i) (simp_all add: firstHalf_append zeroDigestHex_length)

lemma merkleFold_spec_deepPath:
  "merkleFold_spec firstHalf 1 (map hexToBytes deepPath) 0 (hexToBytes zeroDigestHex) =
     hexToBytes zeroDigestHex"
proof -
  have m: "map hexToBytes deepPath =
             replicate 32 (hexToBytes zeroDigestHex) @ [hexToBytes onesDigestHex]"
    by (simp add: deepPath_def)
  have b: "\<not> bit (1::int) 32" by simp
  show ?thesis
    unfolding m merkleFold_spec_zero_steps
    using b by (simp add: firstHalf_append zeroDigestHex_length)
qed

text \<open>
  Claim C3. \<^verbatim>\<open>verifyMerkleProof\<close> should, at step \<open>i\<close>, hash
  \<open>sibling \<parallel> current\<close> when bit \<open>i\<close> of the index is 1 and \<open>current \<parallel> sibling\<close>
  otherwise, and return whether the last digest is the root. It does so for paths of at
  most 32 siblings (\<open>verifyMerkleProof_agrees\<close>). But \<^verbatim>\<open>(index >> i) & 1\<close> shifts by
  \<open>i mod 32\<close> (\<open>isRight_bit\<close>): on a path of 33 siblings with index 1, step 32 reads
  bit 0, which is 1, where bit 32 is 0, and hashes \<open>sibling \<parallel> current\<close>. With the
  stand-in digest the function returns true on a proof that the stated rule rejects.
\<close>

theorem merkle_deep_path_order:
  "length deepPath = 33
   \<and> isRight 1 32 \<and> \<not> bit (1::int) 32
   \<and> verifyMerkleProof firstHalfDigest onesDigestHex zeroDigestHex deepPath 1 =
       (replicate 32 (DigestCall (hexToBytes zeroDigestHex @ hexToBytes zeroDigestHex))
          @ [DigestCall (hexToBytes onesDigestHex @ hexToBytes zeroDigestHex)],
        Inr True)
   \<and> \<not> merkleVerify_spec firstHalf (hexToBytes onesDigestHex) (hexToBytes zeroDigestHex)
         (map hexToBytes deepPath) 1"
proof -
  have a: "length deepPath = 33" by (simp add: deepPath_def)
  have b: "isRight 1 32" by (simp add: isRight_bit)
  have c: "\<not> bit (1::int) 32" by simp
  have d: "verifyMerkleProof firstHalfDigest onesDigestHex zeroDigestHex deepPath 1 =
       (replicate 32 (DigestCall (hexToBytes zeroDigestHex @ hexToBytes zeroDigestHex))
          @ [DigestCall (hexToBytes onesDigestHex @ hexToBytes zeroDigestHex)],
        Inr True)"
    by (simp add: verifyMerkleProof_def merkleLoop_deepPath compareWithRoot_eq)
  have f: "\<not> merkleVerify_spec firstHalf (hexToBytes onesDigestHex) (hexToBytes zeroDigestHex)
         (map hexToBytes deepPath) 1"
    by (simp add: merkleVerify_spec_def merkleFold_spec_deepPath zero_ones_differ)
  from a b c d f show ?thesis by blast
qed

end
